theory Spec2Isabelle
  imports Complex_Main "HOL-Library.Sublist" "HOL-Library.AList"
begin

section \<open>JavaScript values\<close>

text \<open>
  Every listing, bid and profile the front end handles is the parsed body of an API
  response or of a localStorage entry, so it is a JSON value. A missing property reads
  as \<open>undefined\<close>, which is \<open>None\<close> of \<open>json option\<close>. Numbers are
  modelled as reals: IEEE rounding and the infinities are outside the model.
\<close>

datatype json =
    JNull
  | JBool bool
  | JNum real
  | JStr string
  | JArr "json list"
  | JObj "(string \<times> json) list"

type_synonym jsval = "json option"

datatype error = TypeError | SyntaxError | NetworkError | Error string

text \<open>A JavaScript number that may be \<open>NaN\<close> (the result of \<open>Number(...)\<close>).\<close>

datatype jsnumber = NaN | Num real

text \<open>Truthiness (\<open>!v\<close> is its negation).\<close>

fun truthy :: "jsval \<Rightarrow> bool" where
  "truthy None = False"
| "truthy (Some JNull) = False"
| "truthy (Some (JBool b)) = b"
| "truthy (Some (JNum x)) = (x \<noteq> 0)"
| "truthy (Some (JStr s)) = (s \<noteq> [])"
| "truthy (Some (JArr xs)) = True"
| "truthy (Some (JObj kvs)) = True"

text \<open>Decimal digits of a natural number, as a template literal prints an integer.\<close>

definition digit_char :: "nat \<Rightarrow> char" where
  "digit_char d = ''0123456789'' ! d"

function dec :: "nat \<Rightarrow> string" where
  "dec n = (if n < 10 then [digit_char n] else dec (n div 10) @ [digit_char (n mod 10)])"
  by pat_completeness auto
termination
  by (relation "measure id") auto

declare dec.simps [simp del]

text \<open>
  Own properties of a non-null value: the fields of an object, the indices and length of
  an array or of a string. None of the property names the code reads is inherited from a
  prototype.
\<close>

definition index_of_key :: "string \<Rightarrow> nat \<Rightarrow> nat option" where
  "index_of_key k n = find (\<lambda>i. dec i = k) [0..<n]"

fun own_prop :: "json \<Rightarrow> string \<Rightarrow> jsval" where
  "own_prop (JObj kvs) k = map_of kvs k"
| "own_prop (JArr xs) k =
     (if k = ''length'' then Some (JNum (real (length xs)))
      else (case index_of_key k (length xs) of None \<Rightarrow> None | Some i \<Rightarrow> Some (xs ! i)))"
| "own_prop (JStr s) k =
     (if k = ''length'' then Some (JNum (real (length s)))
      else (case index_of_key k (length s) of None \<Rightarrow> None | Some i \<Rightarrow> Some (JStr [s ! i])))"
| "own_prop _ k = None"

text \<open>\<open>v.k\<close>: reading a property of \<open>null\<close> or \<open>undefined\<close> throws.\<close>

fun get_prop :: "jsval \<Rightarrow> string \<Rightarrow> error + jsval" where
  "get_prop None k = Inl TypeError"
| "get_prop (Some JNull) k = Inl TypeError"
| "get_prop (Some v) k = Inr (own_prop v k)"

text \<open>\<open>v?.k\<close>: optional chaining gives \<open>undefined\<close> instead.\<close>

fun opt_prop :: "jsval \<Rightarrow> string \<Rightarrow> jsval" where
  "opt_prop None k = None"
| "opt_prop (Some JNull) k = None"
| "opt_prop (Some v) k = own_prop v k"

section \<open>The browser\<close>

text \<open>
  What the page gets from the browser rather than from this repository: the clock, the
  built-in conversions, and the remote service behind \<open>fetch\<close>. The functions of
  the repository take it as their first argument.
\<close>

record request =
  req_method :: string
  req_url :: string
  req_headers :: "(string \<times> string) list"
  req_body :: "string option"

text \<open>
  A fetch either rejects or resolves to a response: its status and its body as
  \<open>res.json()\<close> reads it (\<open>None\<close> when the body is not JSON, so that the promise
  rejects).
\<close>

datatype fetch_result = Rejected | Response nat "json option"

record platform =
  now :: int
  Date_time :: "json \<Rightarrow> int option"
  js_Number :: "string \<Rightarrow> jsnumber"
  ToString :: "json \<Rightarrow> string"
  JSON_parse :: "string \<Rightarrow> error + json"
  JSON_stringify :: "json \<Rightarrow> string"
  toLowerCase :: "string \<Rightarrow> string"
  trim :: "string \<Rightarrow> string"
  encodeURIComponent :: "string \<Rightarrow> string"
  toLocaleString :: "string \<Rightarrow> json \<Rightarrow> string"
  engine_message :: "error \<Rightarrow> string"
  fetch :: "request \<Rightarrow> fetch_result"

text \<open>
  \<open>now\<close> is \<open>new Date().getTime()\<close> in milliseconds; \<open>Date_time v\<close> is
  \<open>new Date(v).getTime()\<close>, with \<open>None\<close> for \<open>NaN\<close> (an invalid date);
  \<open>toLocaleString kind v\<close> stands for the locale-dependent date and time formats of
  \<open>new Date(v)\<close>; \<open>engine_message\<close> is the message text of an error the engine
  itself throws.
\<close>

text \<open>String conversion, as a template literal or \<open>new Error(v)\<close> does it.\<close>

fun js_String :: "platform \<Rightarrow> jsval \<Rightarrow> string" where
  "js_String p None = ''undefined''"
| "js_String p (Some (JStr s)) = s"
| "js_String p (Some v) = ToString p v"

fun message_of :: "platform \<Rightarrow> error \<Rightarrow> string" where
  "message_of p (Error m) = m"
| "message_of p e = engine_message p e"

text \<open>\<open>a || b\<close> on values.\<close>

definition js_or :: "jsval \<Rightarrow> jsval \<Rightarrow> jsval" where
  "js_or a b = (if truthy a then a else b)"

text \<open>
  Strict equality \<open>===\<close> of two values read from different parsed documents:
  primitives compare by value, while two objects or arrays are never the same reference.
\<close>

fun is_reference :: "json \<Rightarrow> bool" where
  "is_reference (JArr xs) = True"
| "is_reference (JObj kvs) = True"
| "is_reference _ = False"

definition strict_eq :: "jsval \<Rightarrow> jsval \<Rightarrow> bool" where
  "strict_eq a b = (a = b \<and> (case a of None \<Rightarrow> True | Some v \<Rightarrow> \<not> is_reference v))"

section \<open>View-model helpers (utils/helpers.js)\<close>

subsection \<open>getHighestBidAmount\<close>

text \<open>
  The callback of \<open>listing.bids.reduce\<close>: a bid whose \<open>amount\<close> is not a number
  counts as 0, and the running maximum is kept unless the amount is larger.
\<close>

definition bid_step :: "real \<Rightarrow> json \<Rightarrow> error + real" where
  "bid_step mx bid =
     (case get_prop (Some bid) ''amount'' of
        Inl e \<Rightarrow> Inl e
      | Inr a \<Rightarrow>
          (let amount = (case a of Some (JNum x) \<Rightarrow> x | _ \<Rightarrow> 0)
           in Inr (if amount > mx then amount else mx)))"

fun reduce_bids :: "json list \<Rightarrow> real \<Rightarrow> error + real" where
  "reduce_bids [] mx = Inr mx"
| "reduce_bids (bid # bids) mx =
     (case bid_step mx bid of Inl e \<Rightarrow> Inl e | Inr mx' \<Rightarrow> reduce_bids bids mx')"

definition getHighestBidAmount :: "jsval \<Rightarrow> error + real" where
  "getHighestBidAmount listing =
     (case get_prop listing ''bids'' of
        Inl e \<Rightarrow> Inl e
      | Inr b \<Rightarrow>
          (case b of
             Some (JArr bids) \<Rightarrow> if length bids = 0 then Inr 0 else reduce_bids bids 0
           | _ \<Rightarrow> Inr 0))"

text \<open>The amount a bid contributes: its \<open>amount\<close> when that is a number, else 0.\<close>

definition amount_of :: "json \<Rightarrow> real" where
  "amount_of bid = (case own_prop bid ''amount'' of Some (JNum x) \<Rightarrow> x | _ \<Rightarrow> 0)"

subsection \<open>getTimeRemaining\<close>

text \<open>
  The time arithmetic is on integers of milliseconds or \<open>NaN\<close> (\<open>None\<close>); every
  comparison with \<open>NaN\<close> is false.
\<close>

definition nsub :: "int option \<Rightarrow> int option \<Rightarrow> int option" where
  "nsub a b = (case (a, b) of (Some x, Some y) \<Rightarrow> Some (x - y) | _ \<Rightarrow> None)"

definition nfloordiv :: "int option \<Rightarrow> int \<Rightarrow> int option" where
  "nfloordiv a d = map_option (\<lambda>x. x div d) a"

definition nle :: "int option \<Rightarrow> int \<Rightarrow> bool" where
  "nle a c = (case a of None \<Rightarrow> False | Some x \<Rightarrow> x \<le> c)"

definition nge :: "int option \<Rightarrow> int \<Rightarrow> bool" where
  "nge a c = (case a of None \<Rightarrow> False | Some x \<Rightarrow> x \<ge> c)"

definition ngt :: "int option \<Rightarrow> int \<Rightarrow> bool" where
  "ngt a c = (case a of None \<Rightarrow> False | Some x \<Rightarrow> x > c)"

definition nshow :: "int option \<Rightarrow> string" where
  "nshow a =
     (case a of
        None \<Rightarrow> ''NaN''
      | Some x \<Rightarrow> if x < 0 then ''-'' @ dec (nat (- x)) else dec (nat x))"

definition getTimeRemaining :: "platform \<Rightarrow> jsval \<Rightarrow> string" where
  "getTimeRemaining p endsAt =
     (if \<not> truthy endsAt then ''''
      else
        (let diffMs = nsub (Date_time p (the endsAt)) (Some (now p)) in
         if nle diffMs 0 then ''Ended''
         else
           (let diffMinutes = nfloordiv diffMs (1000 * 60);
                diffHours = nfloordiv diffMinutes 60;
                diffDays = nfloordiv diffHours 24
            in if nge diffDays 1
               then ''in about '' @ nshow diffDays @ '' day'' @ (if ngt diffDays 1 then ''s'' else '''')
               else if nge diffHours 1
               then ''in about '' @ nshow diffHours @ '' hour'' @ (if ngt diffHours 1 then ''s'' else '''')
               else ''in about '' @ nshow diffMinutes @ '' minute'' @
                      (if ngt diffMinutes 1 then ''s'' else ''''))))"

section \<open>Auth store (utils/storage.js)\<close>

type_synonym storage = "string \<rightharpoonup> string"

definition TOKEN_KEY :: string where
  "TOKEN_KEY = ''ah_token''"

definition PROFILE_KEY :: string where
  "PROFILE_KEY = ''ah_profile''"

text \<open>
  The own enumerable properties that a rest pattern or \<open>Object.assign\<close> copies: the
  fields of an object, the elements of an array, the characters of a string.
\<close>

fun own_props :: "json \<Rightarrow> (string \<times> json) list" where
  "own_props (JObj kvs) = kvs"
| "own_props (JArr xs) = map (\<lambda>i. (dec i, xs ! i)) [0..<length xs]"
| "own_props (JStr s) = map (\<lambda>i. (dec i, JStr [s ! i])) [0..<length s]"
| "own_props _ = []"

text \<open>\<open>const { accessToken, ...profile } = data\<close>: the fields other than the token.\<close>

definition without_token :: "(string \<times> json) list \<Rightarrow> (string \<times> json) list" where
  "without_token kvs = filter (\<lambda>kv. fst kv \<noteq> ''accessToken'') kvs"

definition saveAuth :: "platform \<Rightarrow> jsval \<Rightarrow> storage \<Rightarrow> error + storage" where
  "saveAuth p data st =
     (case get_prop data ''accessToken'' of
        Inl e \<Rightarrow> Inl e
      | Inr accessToken \<Rightarrow>
          (let profile = JObj (without_token (own_props (the data)));
               st1 = (if truthy accessToken then st(TOKEN_KEY \<mapsto> js_String p accessToken) else st)
           in Inr (st1(PROFILE_KEY \<mapsto> JSON_stringify p profile))))"

definition getToken :: "storage \<Rightarrow> string option" where
  "getToken st = st TOKEN_KEY"

text \<open>The \<open>try\<close>/\<open>catch\<close> around \<open>JSON.parse\<close> turns its exception into \<open>null\<close>.\<close>

definition getProfile :: "platform \<Rightarrow> storage \<Rightarrow> error + json" where
  "getProfile p st =
     (case st PROFILE_KEY of
        None \<Rightarrow> Inr JNull
      | Some raw \<Rightarrow>
          if raw = [] then Inr JNull
          else (case JSON_parse p raw of Inl e \<Rightarrow> Inr JNull | Inr v \<Rightarrow> Inr v))"

definition clearAuth :: "storage \<Rightarrow> storage" where
  "clearAuth st = (st(TOKEN_KEY := None))(PROFILE_KEY := None)"

text \<open>A stored string as a value: \<open>null\<close> when the key is absent.\<close>

definition str_val :: "string option \<Rightarrow> jsval" where
  "str_val t = (case t of None \<Rightarrow> Some JNull | Some s \<Rightarrow> Some (JStr s))"

section \<open>API gateway functions\<close>

definition API_BASE :: string where
  "API_BASE = ''https://v2.api.noroff.dev''"

definition API_KEY :: string where
  "API_KEY = ''dd10995e-6915-4042-b4c7-5fea046f106b''"

definition LISTINGS_BASE :: string where
  "LISTINGS_BASE = API_BASE @ ''/auction/listings''"

definition PROFILE_BASE :: string where
  "PROFILE_BASE = API_BASE @ ''/auction/profiles''"

text \<open>\<open>response.ok\<close>: the status is in the range 200 to 299.\<close>

definition is_ok :: "nat \<Rightarrow> bool" where
  "is_ok status = (200 \<le> status \<and> status \<le> 299)"

text \<open>\<open>await res.json().catch(() => ({}))\<close>: an unreadable body becomes \<open>{}\<close>.\<close>

definition json_or_empty :: "json option \<Rightarrow> json" where
  "json_or_empty body = (case body of None \<Rightarrow> JObj [] | Some v \<Rightarrow> v)"

text \<open>\<open>errors?.[0]?.message\<close>, given the value of \<open>errors\<close>.\<close>

definition first_error_message :: "jsval \<Rightarrow> jsval" where
  "first_error_message errs = opt_prop (opt_prop errs ''0'') ''message''"

text \<open>
  A gateway function returns the requests it has sent (none or one) and either the error
  it throws or the value it resolves to.
\<close>

type_synonym 'a gateway = "request list \<times> (error + 'a)"

subsection \<open>dashboard.js\<close>

definition dashboard_error_message :: "platform \<Rightarrow> nat \<Rightarrow> json option \<Rightarrow> error" where
  "dashboard_error_message p status body =
     (case get_prop (Some (json_or_empty body)) ''errors'' of
        Inl e \<Rightarrow> e
      | Inr errs \<Rightarrow>
          Error (js_String p (js_or (first_error_message errs)
                                (Some (JStr (''API error: '' @ dec status))))))"

definition dashboard_placeBid :: "platform \<Rightarrow> storage \<Rightarrow> jsval \<Rightarrow> real \<Rightarrow> jsval gateway" where
  "dashboard_placeBid p st listingId amount =
     (if \<not> truthy (str_val (getToken st))
      then ([], Inl (Error ''You must be logged in to place a bid.''))
      else
        (let req = \<lparr> req_method = ''POST'',
                     req_url = API_BASE @ ''/auction/listings/'' @ js_String p listingId @ ''/bids'',
                     req_headers =
                       [(''Content-Type'', ''application/json''),
                        (''Authorization'', ''Bearer '' @ the (getToken st)),
                        (''X-Noroff-API-Key'', API_KEY)],
                     req_body = Some (JSON_stringify p (JObj [(''amount'', JNum amount)])) \<rparr>
         in ([req],
             (case fetch p req of
                Rejected \<Rightarrow> Inl NetworkError
              | Response status body \<Rightarrow>
                  if \<not> is_ok status then Inl (dashboard_error_message p status body)
                  else (case body of
                          None \<Rightarrow> Inl SyntaxError
                        | Some result \<Rightarrow> get_prop (Some result) ''data'')))))"

definition dashboard_fetchListingById :: "platform \<Rightarrow> storage \<Rightarrow> jsval \<Rightarrow> jsval gateway" where
  "dashboard_fetchListingById p st listingId =
     (let headers = [(''X-Noroff-API-Key'', API_KEY)] @
                    (if truthy (str_val (getToken st))
                     then [(''Authorization'', ''Bearer '' @ the (getToken st))] else []);
          req = \<lparr> req_method = ''GET'',
                  req_url = API_BASE @ ''/auction/listings/'' @
                            encodeURIComponent p (js_String p listingId) @ ''?_seller=true&_bids=true'',
                  req_headers = headers,
                  req_body = None \<rparr>
      in ([req],
          (case fetch p req of
             Rejected \<Rightarrow> Inl NetworkError
           | Response status body \<Rightarrow>
               if \<not> is_ok status then Inl (dashboard_error_message p status body)
               else (case body of
                       None \<Rightarrow> Inl SyntaxError
                     | Some result \<Rightarrow> get_prop (Some result) ''data''))))"

subsection \<open>listing-detail.js\<close>

definition detail_error_message :: "platform \<Rightarrow> string \<Rightarrow> nat \<Rightarrow> json \<Rightarrow> error" where
  "detail_error_message p what status data =
     Error (js_String p
       (js_or (first_error_message (opt_prop (Some data) ''errors''))
          (js_or (opt_prop (Some data) ''message'')
             (Some (JStr (''Failed to '' @ what @ '' ('' @ dec status @ '')''))))))"

definition detail_fetchListing :: "platform \<Rightarrow> storage \<Rightarrow> jsval \<Rightarrow> jsval gateway" where
  "detail_fetchListing p st listingId =
     (let headers = [(''X-Noroff-API-Key'', API_KEY)] @
                    (if truthy (str_val (getToken st))
                     then [(''Authorization'', ''Bearer '' @ the (getToken st))] else []);
          req = \<lparr> req_method = ''GET'',
                  req_url = LISTINGS_BASE @ ''/'' @ encodeURIComponent p (js_String p listingId) @
                            ''?_seller=true&_bids=true'',
                  req_headers = headers,
                  req_body = None \<rparr>
      in ([req],
          (case fetch p req of
             Rejected \<Rightarrow> Inl NetworkError
           | Response status body \<Rightarrow>
               (let data = json_or_empty body
                in if \<not> is_ok status then Inl (detail_error_message p ''load listing'' status data)
                   else get_prop (Some data) ''data''))))"

definition detail_placeBid :: "platform \<Rightarrow> storage \<Rightarrow> jsval \<Rightarrow> real \<Rightarrow> jsval gateway" where
  "detail_placeBid p st listingId amount =
     (case getProfile p st of
        Inl e \<Rightarrow> ([], Inl e)
      | Inr profile \<Rightarrow>
          if \<not> truthy (str_val (getToken st)) \<or> \<not> truthy (Some profile)
          then ([], Inl (Error ''You must be logged in to place a bid.''))
          else
            (let req = \<lparr> req_method = ''POST'',
                         req_url = LISTINGS_BASE @ ''/'' @
                                   encodeURIComponent p (js_String p listingId) @ ''/bids'',
                         req_headers =
                           [(''Content-Type'', ''application/json''),
                            (''Authorization'', ''Bearer '' @ the (getToken st)),
                            (''X-Noroff-API-Key'', API_KEY)],
                         req_body = Some (JSON_stringify p (JObj [(''amount'', JNum amount)])) \<rparr>
             in ([req],
                 (case fetch p req of
                    Rejected \<Rightarrow> Inl NetworkError
                  | Response status body \<Rightarrow>
                      (let data = json_or_empty body
                       in if \<not> is_ok status
                          then Inl (detail_error_message p ''place bid'' status data)
                          else get_prop (Some data) ''data'')))))"

subsection \<open>edit-listing.js\<close>

definition edit_error_message :: "platform \<Rightarrow> string \<Rightarrow> nat \<Rightarrow> json \<Rightarrow> error" where
  "edit_error_message p what status data =
     Error (js_String p
       (js_or (first_error_message (opt_prop (Some data) ''errors''))
          (Some (JStr (''Failed to '' @ what @ '' ('' @ dec status @ '')'')))))"

definition edit_headers :: "string \<Rightarrow> (string \<times> string) list" where
  "edit_headers token = [(''Authorization'', ''Bearer '' @ token), (''X-Noroff-API-Key'', API_KEY)]"

definition edit_fetchListing :: "platform \<Rightarrow> string \<Rightarrow> string \<Rightarrow> jsval gateway" where
  "edit_fetchListing p token listingId =
     (let req = \<lparr> req_method = ''GET'',
                  req_url = LISTINGS_BASE @ ''/'' @ listingId @ ''?_seller=true&_bids=true'',
                  req_headers = edit_headers token,
                  req_body = None \<rparr>
      in ([req],
          (case fetch p req of
             Rejected \<Rightarrow> Inl NetworkError
           | Response status body \<Rightarrow>
               (let data = json_or_empty body
                in if \<not> is_ok status then Inl (edit_error_message p ''load listing'' status data)
                   else get_prop (Some data) ''data''))))"

definition updateListing :: "platform \<Rightarrow> string \<Rightarrow> string \<Rightarrow> json \<Rightarrow> jsval gateway" where
  "updateListing p token listingId body =
     (let req = \<lparr> req_method = ''PUT'',
                  req_url = LISTINGS_BASE @ ''/'' @ listingId,
                  req_headers = (''Content-Type'', ''application/json'') # edit_headers token,
                  req_body = Some (JSON_stringify p body) \<rparr>
      in ([req],
          (case fetch p req of
             Rejected \<Rightarrow> Inl NetworkError
           | Response status rbody \<Rightarrow>
               (let data = json_or_empty rbody
                in if \<not> is_ok status then Inl (edit_error_message p ''update listing'' status data)
                   else get_prop (Some data) ''data''))))"

definition deleteListing :: "platform \<Rightarrow> string \<Rightarrow> string \<Rightarrow> bool gateway" where
  "deleteListing p token listingId =
     (let req = \<lparr> req_method = ''DELETE'',
                  req_url = LISTINGS_BASE @ ''/'' @ listingId,
                  req_headers = edit_headers token,
                  req_body = None \<rparr>
      in ([req],
          (case fetch p req of
             Rejected \<Rightarrow> Inl NetworkError
           | Response status body \<Rightarrow>
               if \<not> is_ok status
               then Inl (edit_error_message p ''delete listing'' status (json_or_empty body))
               else Inr True)))"

section \<open>Pages\<close>

text \<open>
  A page controller owns the localStorage of the origin, the DOM hooks of its document
  (an absent hook is \<open>None\<close>) and leaves a trace of what the outside can observe, in
  the order it happens: blocking alerts, navigations, requests sent, console output, and
  an exception nobody catches.
\<close>

record element =
  textContent :: string
  elem_value :: string
  disabled :: bool
  innerHTML :: string
  src :: string
  alt :: string

datatype effect =
    Alert string
  | Navigate string
  | Fetch request
  | ConsoleError error
  | ConsoleWarn string
  | Uncaught error

record page =
  storage :: storage
  dom :: "string \<rightharpoonup> element"
  trace :: "effect list"

definition emit :: "effect \<Rightarrow> 'a page_scheme \<Rightarrow> 'a page_scheme" where
  "emit e st = st\<lparr>trace := trace st @ [e]\<rparr>"

definition emit_requests :: "request list \<Rightarrow> 'a page_scheme \<Rightarrow> 'a page_scheme" where
  "emit_requests reqs st = st\<lparr>trace := trace st @ map Fetch reqs\<rparr>"

text \<open>\<open>if (el) el.field = ...\<close>: a write to a hook that may be absent.\<close>

definition update_element ::
  "string \<Rightarrow> (element \<Rightarrow> element) \<Rightarrow> 'a page_scheme \<Rightarrow> 'a page_scheme" where
  "update_element sel f st =
     (case dom st sel of None \<Rightarrow> st | Some el \<Rightarrow> st\<lparr>dom := (dom st)(sel \<mapsto> f el)\<rparr>)"

text \<open>The requests among the effects of a trace.\<close>

fun requests_of :: "effect list \<Rightarrow> request list" where
  "requests_of [] = []"
| "requests_of (Fetch r # es) = r # requests_of es"
| "requests_of (e # es) = requests_of es"

text \<open>\<open>{ ...target, ...src }\<close> and \<open>Object.assign(target, src)\<close> on the fields.\<close>

definition object_assign :: "(string \<times> json) list \<Rightarrow> jsval \<Rightarrow> (string \<times> json) list" where
  "object_assign target source =
     (case source of
        None \<Rightarrow> target
      | Some v \<Rightarrow> fold (\<lambda>kv. AList.update (fst kv) (snd kv)) (own_props v) target)"

text \<open>\<open>a ?? b\<close>.\<close>

definition nullish_or :: "jsval \<Rightarrow> jsval \<Rightarrow> jsval" where
  "nullish_or a b = (case a of None \<Rightarrow> b | Some JNull \<Rightarrow> b | Some v \<Rightarrow> Some v)"

text \<open>\<open>ToNumber\<close>, for the comparison \<open>v > 0\<close>.\<close>

fun to_number :: "platform \<Rightarrow> jsval \<Rightarrow> jsnumber" where
  "to_number p None = NaN"
| "to_number p (Some JNull) = Num 0"
| "to_number p (Some (JBool b)) = Num (if b then 1 else 0)"
| "to_number p (Some (JNum x)) = Num x"
| "to_number p (Some (JStr s)) = js_Number p s"
| "to_number p (Some v) = js_Number p (ToString p v)"

definition js_gt0 :: "platform \<Rightarrow> jsval \<Rightarrow> bool" where
  "js_gt0 p v = (case to_number p v of NaN \<Rightarrow> False | Num x \<Rightarrow> x > 0)"

subsection \<open>More helpers of utils/helpers.js\<close>

definition formatDate :: "platform \<Rightarrow> jsval \<Rightarrow> string" where
  "formatDate p isostring =
     (if \<not> truthy isostring then ''unknown''
      else toLocaleString p ''date en-GB'' (the isostring))"

definition getListingImage :: "platform \<Rightarrow> jsval \<Rightarrow> error + jsval" where
  "getListingImage p listing =
     (case get_prop listing ''media'' of
        Inl e \<Rightarrow> Inl e
      | Inr media \<Rightarrow>
          if truthy media \<and> js_gt0 p (opt_prop media ''length'')
          then (case get_prop (opt_prop media ''0'') ''url'' of
                  Inl e \<Rightarrow> Inl e
                | Inr url \<Rightarrow> if truthy url then Inr url else Inr (Some (JStr ''images/vase.jpg'')))
          else Inr (Some (JStr ''images/vase.jpg'')))"

text \<open>
  \<open>_count?.bids ?? (Array.isArray(bids) ? bids.length : 0)\<close>, as both the dashboard
  card and the detail page compute the number of bids.
\<close>

definition bids_count :: "json \<Rightarrow> jsval" where
  "bids_count listing =
     nullish_or (opt_prop (own_prop listing ''_count'') ''bids'')
       (case own_prop listing ''bids'' of
          Some (JArr bids) \<Rightarrow> Some (JNum (real (length bids)))
        | _ \<Rightarrow> Some (JNum 0))"

subsection \<open>Listing detail page (listing-detail.js)\<close>

record detail_page = page +
  currentListing :: jsval

definition updateNavCredits :: "platform \<Rightarrow> jsval \<Rightarrow> 'a page_scheme \<Rightarrow> 'a page_scheme" where
  "updateNavCredits p credits st =
     (case credits of
        Some (JNum c) \<Rightarrow>
          update_element ''#nav-credits-value'' (\<lambda>el. el\<lparr>textContent := js_String p credits\<rparr>) st
      | _ \<Rightarrow> st)"

definition profile_request :: "platform \<Rightarrow> string \<Rightarrow> jsval \<Rightarrow> request" where
  "profile_request p token name =
     \<lparr> req_method = ''GET'',
       req_url = PROFILE_BASE @ ''/'' @ encodeURIComponent p (js_String p name),
       req_headers = [(''Authorization'', ''Bearer '' @ token), (''X-Noroff-API-Key'', API_KEY)],
       req_body = None \<rparr>"

text \<open>
  The argument of \<open>saveAuth({ accessToken: token, ...updatedProfile })\<close>.
\<close>

definition auth_data :: "string \<Rightarrow> jsval \<Rightarrow> jsval" where
  "auth_data token updatedProfile =
     Some (JObj (object_assign [(''accessToken'', JStr token)] updatedProfile))"

definition detail_refreshProfileCredits :: "platform \<Rightarrow> detail_page \<Rightarrow> detail_page" where
  "detail_refreshProfileCredits p st =
     (case getProfile p (storage st) of
        Inl e \<Rightarrow> emit (Uncaught e) st
      | Inr profile \<Rightarrow>
          if \<not> truthy (str_val (getToken (storage st))) \<or>
             \<not> truthy (opt_prop (Some profile) ''name'')
          then st
          else
            (let token = the (getToken (storage st));
                 req = profile_request p token (opt_prop (Some profile) ''name'');
                 st1 = emit (Fetch req) st
             in case fetch p req of
                  Rejected \<Rightarrow> emit (ConsoleError NetworkError) st1
                | Response status body \<Rightarrow>
                    if \<not> is_ok status then st1
                    else
                      (case body of
                         None \<Rightarrow> emit (ConsoleError SyntaxError) st1
                       | Some result \<Rightarrow>
                           (case get_prop (Some result) ''data'' of
                              Inl e \<Rightarrow> emit (ConsoleError e) st1
                            | Inr updatedProfile \<Rightarrow>
                                (case saveAuth p (auth_data token updatedProfile) (storage st1) of
                                   Inl e \<Rightarrow> emit (ConsoleError e) st1
                                 | Inr sto \<Rightarrow>
                                     (case get_prop updatedProfile ''credits'' of
                                        Inl e \<Rightarrow> emit (ConsoleError e) (st1\<lparr>storage := sto\<rparr>)
                                      | Inr credits \<Rightarrow>
                                          updateNavCredits p credits (st1\<lparr>storage := sto\<rparr>)))))))"

definition formatEndsAt :: "platform \<Rightarrow> jsval \<Rightarrow> string" where
  "formatEndsAt p isoString =
     (if \<not> truthy isoString then ''Unknown''
      else formatDate p isoString @ '', '' @ toLocaleString p ''time'' (the isoString))"

text \<open>
  One row of the bid history, without the white space between its tags. The date of
  the bid is printed in the locale of the browser.
\<close>

definition bid_row :: "platform \<Rightarrow> json \<Rightarrow> string" where
  \<open>bid_row p bid =
     (let bidderName =
            js_or (if truthy (own_prop bid ''bidder'')
                   then opt_prop (own_prop bid ''bidder'') ''name'' else own_prop bid ''bidder'')
              (js_or (own_prop bid ''bidderName'') (Some (JStr ''Unknown bidder'')));
          timeText =
            (if truthy (own_prop bid ''created'')
             then toLocaleString p ''datetime'' (the (own_prop bid ''created''))
             else ''Unknown time'')
      in ''<div class="bid-row"><div class="bid-left"><span class="bid-username">'' @
         js_String p bidderName @ ''</span><span class="bid-time">'' @ timeText @
         ''</span></div><div class="bid-right"><span class="bid-amount">'' @
         js_String p (own_prop bid ''amount'') @ '' credits</span></div></div>'')\<close>

text \<open>
  \<open>[...bids].sort((a, b) => new Date(b.created).getTime() - new Date(a.created).getTime())\<close>.
  \<open>created_time\<close> is \<open>new Date(bid.created).getTime()\<close>, \<open>NaN\<close> for a
  missing or invalid date. The comparator asks for \<open>a\<close> behind \<open>b\<close> when its value is
  positive, that is when \<open>b\<close> is the later of two dated bids; with a \<open>NaN\<close> on either
  side its value counts as zero and the two bids keep their order. The sort of the engine
  is stable, and the model is the stable insertion sort by this comparator: bids with
  valid dates come out latest first, and bids none of which has a valid date stay in the
  order of the response. (Where valid and invalid dates are mixed the comparator is not
  an order, and the standard leaves the result to the engine.)
\<close>

definition created_time :: "platform \<Rightarrow> json \<Rightarrow> int option" where
  "created_time p bid =
     (case own_prop bid ''created'' of None \<Rightarrow> None | Some c \<Rightarrow> Date_time p c)"

definition goes_behind :: "platform \<Rightarrow> json \<Rightarrow> json \<Rightarrow> bool" where
  "goes_behind p a b = ngt (nsub (created_time p b) (created_time p a)) 0"

fun insert_bid :: "platform \<Rightarrow> json \<Rightarrow> json list \<Rightarrow> json list" where
  "insert_bid p a [] = [a]"
| "insert_bid p a (b # bs) = (if goes_behind p a b then b # insert_bid p a bs else a # b # bs)"

definition sortedBids :: "platform \<Rightarrow> json list \<Rightarrow> json list" where
  "sortedBids p bids = foldr (insert_bid p) bids []"

text \<open>
  The history list, its markup without the surrounding white space. Reading a field of a
  \<open>null\<close> bid throws: in the comparator of the sort when there are two bids or
  more, in the first row when there is one; either way before any row is appended.
\<close>

definition renderBidHistory :: "platform \<Rightarrow> json \<Rightarrow> detail_page \<Rightarrow> detail_page \<times> error option" where
  \<open>renderBidHistory p listing st =
     (if dom st ''#bidHistoryList'' = None then (st, None)
      else
        (let st1 = update_element ''#bidHistoryList'' (\<lambda>el. el\<lparr>innerHTML := ''''\<rparr>) st;
             bids = (case own_prop listing ''bids'' of Some (JArr bs) \<Rightarrow> bs | _ \<Rightarrow> [])
         in if length bids = 0
            then (update_element ''#bidHistoryList''
                    (\<lambda>el. el\<lparr>innerHTML := ''<p class="no-bids">No bids yet.</p>''\<rparr>) st1, None)
            else if JNull \<in> set bids then (st1, Some TypeError)
            else (update_element ''#bidHistoryList''
                    (\<lambda>el. el\<lparr>innerHTML := concat (map (bid_row p) (sortedBids p bids))\<rparr>) st1,
                  None)))\<close>

definition updateBidFormState :: "platform \<Rightarrow> detail_page \<Rightarrow> detail_page" where
  "updateBidFormState p st =
     (if dom st ''#placeBidForm'' = None \<or> dom st ''#bidAmountInput'' = None \<or>
         dom st ''#placeBidButton'' = None \<or> \<not> truthy (currentListing st)
      then st
      else
        (case getProfile p (storage st) of
           Inl e \<Rightarrow> emit (Uncaught e) st
         | Inr user \<Rightarrow>
             (let isLoggedIn = (truthy (str_val (getToken (storage st))) \<and> truthy (Some user));
                  seller = own_prop (the (currentListing st)) ''seller'';
                  isOwnListing =
                    (isLoggedIn \<and> truthy seller \<and>
                     strict_eq (opt_prop seller ''name'') (own_prop user ''name''));
                  endsAt = own_prop (the (currentListing st)) ''endsAt'';
                  isEnded =
                    (truthy endsAt \<and>
                     (case Date_time p (the endsAt) of None \<Rightarrow> False | Some t \<Rightarrow> t \<le> now p));
                  set_form = (\<lambda>input_off button_off label s.
                    update_element ''#placeBidButton''
                      (\<lambda>el. el\<lparr>disabled := button_off, textContent := label\<rparr>)
                      (update_element ''#bidAmountInput'' (\<lambda>el. el\<lparr>disabled := input_off\<rparr>) s))
              in if \<not> isLoggedIn then set_form True False ''Login or register to place a bid'' st
                 else if isOwnListing then set_form True True ''Your listing'' st
                 else if isEnded then set_form True True ''Auction ended'' st
                 else set_form False False ''Place Bid'' st)))"

definition renderListing :: "platform \<Rightarrow> jsval \<Rightarrow> detail_page \<Rightarrow> detail_page \<times> error option" where
  "renderListing p listing st =
     (let st0 = st\<lparr>currentListing := listing\<rparr>
      in case get_prop listing ''title'' of
           Inl e \<Rightarrow> (st0, Some e)
         | Inr title \<Rightarrow>
             (case getListingImage p listing of
                Inl e \<Rightarrow> (st0, Some e)
              | Inr imageUrl \<Rightarrow>
                  (case getHighestBidAmount listing of
                     Inl e \<Rightarrow> (st0, Some e)
                   | Inr highestBid \<Rightarrow>
                       (let l = the listing;
                            sellerName = js_or (opt_prop (own_prop l ''seller'') ''name'')
                                           (Some (JStr ''Unknown seller''));
                            bidsCount = bids_count l;
                            endsAtText = formatEndsAt p (own_prop l ''endsAt'');
                            st1 = update_element ''#listingImage''
                                    (\<lambda>el. el\<lparr>src := js_String p imageUrl,
                                              alt := js_String p (js_or title (Some (JStr ''Listing image'')))\<rparr>)
                                    st0;
                            st2 = update_element ''#listingTitle''
                                    (\<lambda>el. el\<lparr>textContent :=
                                       js_String p (js_or title (Some (JStr ''Untitled listing'')))\<rparr>) st1;
                            st3 = update_element ''#listingDescription''
                                    (\<lambda>el. el\<lparr>textContent :=
                                       js_String p (js_or (own_prop l ''description'')
                                         (Some (JStr ''No description provided for this listing.'')))\<rparr>) st2;
                            st4 = update_element ''#listingSeller''
                                    (\<lambda>el. el\<lparr>textContent := js_String p sellerName\<rparr>) st3;
                            st5 = update_element ''#listingTotalBids''
                                    (\<lambda>el. el\<lparr>textContent := js_String p bidsCount\<rparr>) st4;
                            st6 = update_element ''#listingHighestBid''
                                    (\<lambda>el. el\<lparr>textContent :=
                                       (if strict_eq bidsCount (Some (JNum 0)) then ''No bids yet''
                                        else js_String p (Some (JNum highestBid)) @ '' credits'')\<rparr>) st5;
                            st7 = update_element ''#listingEndsAt''
                                    (\<lambda>el. el\<lparr>textContent := endsAtText\<rparr>) st6
                        in case renderBidHistory p l st7 of
                             (st8, Some e) \<Rightarrow> (st8, Some e)
                           | (st8, None) \<Rightarrow> (updateBidFormState p st8, None)))))"

text \<open>
  The body of the \<open>try\<close> block of \<open>handleBidSubmit\<close>: the state when it ends and
  the exception that ended it, if any.
\<close>

definition detail_bid_try :: "platform \<Rightarrow> real \<Rightarrow> detail_page \<Rightarrow> detail_page \<times> error option" where
  "detail_bid_try p amount st =
     (let st1 = update_element ''#placeBidButton''
                  (\<lambda>el. el\<lparr>disabled := True, textContent := ''Placing bid...''\<rparr>) st;
          posted = detail_placeBid p (storage st1) (own_prop (the (currentListing st1)) ''id'') amount;
          st2 = emit_requests (fst posted) st1
      in case snd posted of
           Inl e \<Rightarrow> (st2, Some e)
         | Inr updated \<Rightarrow>
             (let fetched = detail_fetchListing p (storage st2)
                              (own_prop (the (currentListing st2)) ''id'');
                  st3 = emit_requests (fst fetched) st2
              in case snd fetched of
                   Inl e \<Rightarrow> (st3, Some e)
                 | Inr freshListing \<Rightarrow>
                     (case renderListing p freshListing (st3\<lparr>currentListing := freshListing\<rparr>) of
                        (st4, Some e) \<Rightarrow> (st4, Some e)
                      | (st4, None) \<Rightarrow>
                          (let st5 = update_element ''#bidAmountInput''
                                       (\<lambda>el. el\<lparr>elem_value := ''''\<rparr>) st4;
                               st6 = detail_refreshProfileCredits p st5
                           in (emit (Alert ''Bid placed successfully!'') st6, None)))))"

definition handleBidSubmit :: "platform \<Rightarrow> detail_page \<Rightarrow> detail_page" where
  "handleBidSubmit p st =
     (if \<not> truthy (currentListing st) \<or> dom st ''#bidAmountInput'' = None \<or>
         dom st ''#placeBidButton'' = None
      then st
      else
        (case getProfile p (storage st) of
           Inl e \<Rightarrow> emit (Uncaught e) st
         | Inr profile \<Rightarrow>
             if \<not> truthy (str_val (getToken (storage st))) \<or> \<not> truthy (Some profile)
             then emit (Navigate ''login.html'')
                    (emit (Alert ''You need to login or register before placing a bid.'') st)
             else
               (let amountValue = elem_value (the (dom st ''#bidAmountInput''))
                in if amountValue = [] then emit (Alert ''Please enter a bid amount.'') st
                   else
                     (case js_Number p amountValue of
                        NaN \<Rightarrow> emit (Alert ''Bid amount must be greater than 0.'') st
                      | Num amount \<Rightarrow>
                          if amount \<le> 0 then emit (Alert ''Bid amount must be greater than 0.'') st
                          else
                            (case getHighestBidAmount (currentListing st) of
                               Inl e \<Rightarrow> emit (Uncaught e) st
                             | Inr currentHighest \<Rightarrow>
                                 if amount \<le> currentHighest
                                 then emit (Alert
                                        (''Your bid must be higher than the current highest bid ('' @
                                         js_String p (Some (JNum currentHighest)) @ '' credits).'')) st
                                 else
                                   (case detail_bid_try p amount st of
                                      (st1, None) \<Rightarrow> updateBidFormState p st1
                                    | (st1, Some e) \<Rightarrow>
                                        updateBidFormState p
                                          (emit (Alert (message_of p e))
                                             (emit (ConsoleError e) st1))))))))"

subsection \<open>Dashboard listing card (dashboard.js)\<close>

text \<open>
  What the click handler of a card closes over: the listing object (shared with the
  array of loaded listings and updated in place), the \<open>id\<close> read from it when the card
  was built, whether the card shows a listing of the viewer, and the five elements of the
  card, which exist whenever the handler does.
\<close>

record card_page = page +
  card_listing :: json
  card_id :: jsval
  isOwnListing :: bool
  currentUser :: jsval
  bidBtn :: element
  bidInput :: element
  badgeEl :: element
  bidsTextEl :: element
  highestBidEl :: element

text \<open>
  \<open>Object.assign(listing, freshListing)\<close> on a listing record, which is an object:
  the fields of the fresh listing overwrite its own. The branch for a listing that is no
  object is outside what the code is written for: on an array the source would add the
  fresh fields beside the elements, which no JSON value can hold, and the model leaves
  such a listing as it is.
\<close>

definition assign_listing :: "json \<Rightarrow> jsval \<Rightarrow> json" where
  "assign_listing target freshListing =
     (case target of JObj kvs \<Rightarrow> JObj (object_assign kvs freshListing) | _ \<Rightarrow> target)"

definition updateCreditsDisplay :: "platform \<Rightarrow> jsval \<Rightarrow> 'a page_scheme \<Rightarrow> 'a page_scheme" where
  "updateCreditsDisplay p credits st =
     update_element ''#nav-credits-value'' (\<lambda>el. el\<lparr>textContent := js_String p credits\<rparr>) st"

definition dashboard_refreshProfileCredits :: "platform \<Rightarrow> card_page \<Rightarrow> card_page" where
  "dashboard_refreshProfileCredits p st =
     (case getProfile p (storage st) of
        Inl e \<Rightarrow> emit (Uncaught e) st
      | Inr profile \<Rightarrow>
          if \<not> truthy (str_val (getToken (storage st))) \<or>
             \<not> truthy (opt_prop (Some profile) ''name'')
          then st
          else
            (let token = the (getToken (storage st));
                 req = \<lparr> req_method = ''GET'',
                         req_url = API_BASE @ ''/auction/profiles/'' @
                           encodeURIComponent p (js_String p (opt_prop (Some profile) ''name'')),
                         req_headers = [(''Authorization'', ''Bearer '' @ token),
                                        (''X-Noroff-API-Key'', API_KEY)],
                         req_body = None \<rparr>;
                 st1 = emit (Fetch req) st
             in case fetch p req of
                  Rejected \<Rightarrow> emit (ConsoleError NetworkError) st1
                | Response status body \<Rightarrow>
                    if \<not> is_ok status then st1
                    else
                      (case body of
                         None \<Rightarrow> emit (ConsoleError SyntaxError) st1
                       | Some result \<Rightarrow>
                           (case get_prop (Some result) ''data'' of
                              Inl e \<Rightarrow> emit (ConsoleError e) st1
                            | Inr updatedProfile \<Rightarrow>
                                (case saveAuth p (auth_data token updatedProfile) (storage st1) of
                                   Inl e \<Rightarrow> emit (ConsoleError e) st1
                                 | Inr sto \<Rightarrow>
                                     (let st2 = st1\<lparr>storage := sto, currentUser := updatedProfile\<rparr>
                                      in case get_prop updatedProfile ''credits'' of
                                           Inl e \<Rightarrow> emit (ConsoleError e) st2
                                         | Inr credits \<Rightarrow> updateCreditsDisplay p credits st2))))))"

definition bids_so_far :: "platform \<Rightarrow> jsval \<Rightarrow> string" where
  "bids_so_far p n =
     (if strict_eq n (Some (JNum 0)) then ''No bids yet''
      else js_String p n @ '' bid'' @ (if strict_eq n (Some (JNum 1)) then '''' else ''s'') @
           '' so far'')"

definition card_bid_try :: "platform \<Rightarrow> real \<Rightarrow> card_page \<Rightarrow> card_page \<times> error option" where
  "card_bid_try p amount st =
     (let st1 = st\<lparr>bidBtn := (bidBtn st)\<lparr>disabled := True, textContent := ''Placing bid...''\<rparr>\<rparr>;
          posted = dashboard_placeBid p (storage st1) (card_id st1) amount;
          st2 = emit_requests (fst posted) st1
      in case snd posted of
           Inl e \<Rightarrow> (st2, Some e)
         | Inr updated \<Rightarrow>
             (let fetched = dashboard_fetchListingById p (storage st2) (card_id st2);
                  st3 = emit_requests (fst fetched) st2
              in case snd fetched of
                   Inl e \<Rightarrow> (st3, Some e)
                 | Inr freshListing \<Rightarrow>
                     (let st4 = st3\<lparr>card_listing := assign_listing (card_listing st3) freshListing\<rparr>
                      in case get_prop freshListing ''_count'' of
                           Inl e \<Rightarrow> (st4, Some e)
                         | Inr c \<Rightarrow>
                             (case getHighestBidAmount freshListing of
                                Inl e \<Rightarrow> (st4, Some e)
                              | Inr newHighestBid \<Rightarrow>
                                  (let newBidsCount = bids_count (the freshListing);
                                       st5 = st4\<lparr>
                                         highestBidEl := (highestBidEl st4)\<lparr>textContent :=
                                           js_String p (Some (JNum newHighestBid)) @ '' credits''\<rparr>,
                                         badgeEl := (badgeEl st4)\<lparr>textContent :=
                                           js_String p newBidsCount @ '' bid'' @
                                           (if strict_eq newBidsCount (Some (JNum 1)) then '''' else ''s'')\<rparr>,
                                         bidsTextEl := (bidsTextEl st4)\<lparr>textContent :=
                                           bids_so_far p newBidsCount\<rparr>,
                                         bidInput := (bidInput st4)\<lparr>elem_value := ''''\<rparr>\<rparr>;
                                       st6 = dashboard_refreshProfileCredits p st5
                                   in (emit (Alert ''Bid placed successfully!'') st6, None))))))"

definition card_bid_finally :: "card_page \<Rightarrow> card_page" where
  "card_bid_finally st =
     (if \<not> isOwnListing st
      then st\<lparr>bidBtn := (bidBtn st)\<lparr>disabled := False, textContent := ''Bid''\<rparr>\<rparr>
      else st)"

definition bid_click :: "platform \<Rightarrow> card_page \<Rightarrow> card_page" where
  "bid_click p st =
     (if elem_value (bidInput st) = [] then emit (Alert ''Please enter a bid amount.'') st
      else
        (case js_Number p (elem_value (bidInput st)) of
           NaN \<Rightarrow> emit (Alert ''Bid amount must be greater than 0.'') st
         | Num amount \<Rightarrow>
             if amount \<le> 0 then emit (Alert ''Bid amount must be greater than 0.'') st
             else
               (case getHighestBidAmount (Some (card_listing st)) of
                  Inl e \<Rightarrow> emit (Uncaught e) st
                | Inr currentHighest \<Rightarrow>
                    if amount \<le> currentHighest
                    then emit (Alert
                           (''Your bid must be higher than the current highest bid ('' @
                            js_String p (Some (JNum currentHighest)) @ '' credits).'')) st
                    else
                      (case card_bid_try p amount st of
                         (st1, None) \<Rightarrow> card_bid_finally st1
                       | (st1, Some e) \<Rightarrow>
                           card_bid_finally
                             (emit (Alert (if message_of p e = []
                                           then ''Sorry, something went wrong placing your bid.''
                                           else message_of p e))
                                (emit (ConsoleError e) st1))))))"

text \<open>
  The bid a handler turns away before it sends anything: no amount entered, an amount
  that is not a number or not positive, or one that does not exceed the highest bid the
  page knows of.
\<close>

definition invalid_bid :: "platform \<Rightarrow> string \<Rightarrow> jsval \<Rightarrow> bool" where
  "invalid_bid p entered known =
     (entered = [] \<or>
      (case js_Number p entered of
         NaN \<Rightarrow> True
       | Num amount \<Rightarrow>
           amount \<le> 0 \<or>
           (case getHighestBidAmount known of Inl e \<Rightarrow> False | Inr highest \<Rightarrow> amount \<le> highest)))"

subsection \<open>Edit listing page (edit-listing.js)\<close>

text \<open>
  Beside the page, the \<open>id\<close> parameter of the URL (\<open>None\<close> when it is missing) and
  whether the submit and delete listeners have been registered.
\<close>

record edit_page = page +
  url_id :: "string option"
  submit_listener :: bool
  delete_listener :: bool

text \<open>\<open>mediaArray.map((m) => m.url).join("\n")\<close>.\<close>

fun media_urls :: "json list \<Rightarrow> error + jsval list" where
  "media_urls [] = Inr []"
| "media_urls (m # ms) =
     (case get_prop (Some m) ''url'' of
        Inl e \<Rightarrow> Inl e
      | Inr u \<Rightarrow> (case media_urls ms of Inl e \<Rightarrow> Inl e | Inr us \<Rightarrow> Inr (u # us)))"

definition join_item :: "platform \<Rightarrow> jsval \<Rightarrow> string" where
  "join_item p v = (case v of None \<Rightarrow> '''' | Some JNull \<Rightarrow> '''' | Some w \<Rightarrow> js_String p v)"

fun join_lines :: "string list \<Rightarrow> string" where
  "join_lines [] = ''''"
| "join_lines [s] = s"
| "join_lines (s # t # ss) = s @ [CHR 0x0A] @ join_lines (t # ss)"

definition mediaToTextarea :: "platform \<Rightarrow> jsval \<Rightarrow> error + string" where
  "mediaToTextarea p mediaArray =
     (case mediaArray of
        Some (JArr ms) \<Rightarrow>
          if length ms = 0 then Inr ''''
          else (case media_urls ms of
                  Inl e \<Rightarrow> Inl e
                | Inr us \<Rightarrow> Inr (join_lines (map (join_item p) us)))
      | _ \<Rightarrow> Inr '''')"

text \<open>
  \<open>splitEndsAtToDateTime\<close>: the date and the time of day of \<open>endsAt\<close> in the time
  zone of the browser, both empty when it is missing or invalid.
\<close>

definition splitEndsAtToDateTime :: "platform \<Rightarrow> jsval \<Rightarrow> string \<times> string" where
  "splitEndsAtToDateTime p endsAt =
     (if \<not> truthy endsAt then ('''', '''')
      else if Date_time p (the endsAt) = None then ('''', '''')
      else (toLocaleString p ''local YYYY-MM-DD'' (the endsAt),
            toLocaleString p ''local HH:MM'' (the endsAt)))"

definition populateForm :: "platform \<Rightarrow> jsval \<Rightarrow> jsval \<Rightarrow> edit_page \<Rightarrow> edit_page \<times> error option" where
  "populateForm p listing currentUserName st =
     (case get_prop listing ''title'' of
        Inl e \<Rightarrow> (st, Some e)
      | Inr title \<Rightarrow>
          (let l = the listing;
               seller = own_prop l ''seller''
           in if \<not> truthy seller \<or> \<not> strict_eq (opt_prop seller ''name'') currentUserName
              then (emit (Navigate ''profile.html'')
                      (emit (Alert ''You can only edit your own listings.'') st), None)
              else
                (let st1 = update_element ''#listingTitleInput''
                             (\<lambda>el. el\<lparr>elem_value := js_String p (js_or title (Some (JStr '''')))\<rparr>) st;
                     st2 = update_element ''#listingDescriptionInput''
                             (\<lambda>el. el\<lparr>elem_value :=
                                js_String p (js_or (own_prop l ''description'') (Some (JStr '''')))\<rparr>) st1;
                     media = (if dom st2 ''#mediaUrlsInput'' = None then Inr ''''
                              else mediaToTextarea p (own_prop l ''media''))
                 in case media of
                      Inl e \<Rightarrow> (st2, Some e)
                    | Inr text \<Rightarrow>
                        (let st3 = update_element ''#mediaUrlsInput''
                                     (\<lambda>el. el\<lparr>elem_value := text\<rparr>) st2;
                             dt = splitEndsAtToDateTime p (own_prop l ''endsAt'');
                             st4 = update_element ''#endDateInput''
                                     (\<lambda>el. el\<lparr>elem_value := fst dt\<rparr>) st3
                         in (update_element ''#endTimeInput''
                               (\<lambda>el. el\<lparr>elem_value := snd dt\<rparr>) st4, None)))))"

text \<open>The body of the \<open>try\<close> block of the \<open>DOMContentLoaded\<close> handler.\<close>

definition edit_load_try :: "platform \<Rightarrow> string \<Rightarrow> json \<Rightarrow> string \<Rightarrow> edit_page \<Rightarrow> edit_page \<times> error option" where
  "edit_load_try p token profile listingId st =
     (let fetched = edit_fetchListing p token listingId;
          st1 = emit_requests (fst fetched) st
      in case snd fetched of
           Inl e \<Rightarrow> (st1, Some e)
         | Inr fetched_listing \<Rightarrow>
             (case populateForm p fetched_listing (own_prop profile ''name'') st1 of
                (st2, Some e) \<Rightarrow> (st2, Some e)
              | (st2, None) \<Rightarrow>
                  (st2\<lparr>submit_listener := (submit_listener st2 \<or> dom st2 ''#editListingForm'' \<noteq> None),
                       delete_listener := (delete_listener st2 \<or> dom st2 ''#deleteListingButton'' \<noteq> None)\<rparr>,
                   None)))"

definition edit_load :: "platform \<Rightarrow> edit_page \<Rightarrow> edit_page" where
  "edit_load p st =
     (case getProfile p (storage st) of
        Inl e \<Rightarrow> emit (Uncaught e) st
      | Inr profile \<Rightarrow>
          if \<not> truthy (str_val (getToken (storage st))) \<or> \<not> truthy (Some profile)
          then emit (Navigate ''login.html'') st
          else if \<not> truthy (str_val (url_id st))
          then emit (Navigate ''profile.html'') (emit (Alert ''No listing ID provided.'') st)
          else
            (case edit_load_try p (the (getToken (storage st))) profile (the (url_id st)) st of
               (st1, None) \<Rightarrow> st1
             | (st1, Some e) \<Rightarrow>
                 emit (Navigate ''profile.html'')
                   (emit (Alert (if message_of p e = [] then ''Could not load listing.''
                                 else message_of p e))
                      (emit (ConsoleError e) st1))))"

subsection \<open>Search (search.js)\<close>

text \<open>
  The search script reads two globals of the page: the loaded listings and the render
  function of the page. What the render function is called with is recorded in
  \<open>rendered\<close>.
\<close>

record search_page = page +
  window_allListings :: jsval
  has_renderListings :: bool
  rendered :: "json list option"

text \<open>\<open>s.includes(q)\<close>: \<open>q\<close> occurs in \<open>s\<close> as a contiguous substring.\<close>

fun js_includes :: "string \<Rightarrow> string \<Rightarrow> bool" where
  "js_includes [] q = (q = [])"
| "js_includes (c # cs) q = (prefix q (c # cs) \<or> js_includes cs q)"

text \<open>\<open>(v || "").toLowerCase()\<close>: a truthy value without that method throws.\<close>

definition lower_text :: "platform \<Rightarrow> jsval \<Rightarrow> error + string" where
  "lower_text p v =
     (case js_or v (Some (JStr '''')) of
        Some (JStr s) \<Rightarrow> Inr (toLowerCase p s)
      | _ \<Rightarrow> Inl TypeError)"

definition listing_matches :: "platform \<Rightarrow> string \<Rightarrow> json \<Rightarrow> error + bool" where
  "listing_matches p query l =
     (case get_prop (Some l) ''title'' of
        Inl e \<Rightarrow> Inl e
      | Inr t \<Rightarrow>
          (case lower_text p t of
             Inl e \<Rightarrow> Inl e
           | Inr title \<Rightarrow>
               (case lower_text p (own_prop l ''description'') of
                  Inl e \<Rightarrow> Inl e
                | Inr description \<Rightarrow> Inr (js_includes title query \<or> js_includes description query))))"

fun filter_listings :: "platform \<Rightarrow> string \<Rightarrow> json list \<Rightarrow> error + json list" where
  "filter_listings p query [] = Inr []"
| "filter_listings p query (l # ls) =
     (case listing_matches p query l of
        Inl e \<Rightarrow> Inl e
      | Inr keep \<Rightarrow>
          (case filter_listings p query ls of
             Inl e \<Rightarrow> Inl e
           | Inr kept \<Rightarrow> Inr (if keep then l # kept else kept)))"

definition search_warning :: string where
  "search_warning =
     ''[search] Missing global allListings or renderListings. '' @
     ''Did you include this script after index/dashboard?''"

definition handleSearchSubmit :: "platform \<Rightarrow> search_page \<Rightarrow> search_page" where
  "handleSearchSubmit p st =
     (case dom st ''#home-search-query'' of
        None \<Rightarrow> st
      | Some input \<Rightarrow>
          (let query = toLowerCase p (trim p (elem_value input))
           in case js_or (window_allListings st) (Some (JArr [])) of
                Some (JArr allListings) \<Rightarrow>
                  if \<not> has_renderListings st
                  then emit (ConsoleWarn search_warning) st
                  else if query = [] then st\<lparr>rendered := Some allListings\<rparr>
                  else (case filter_listings p query allListings of
                          Inl e \<Rightarrow> emit (Uncaught e) st
                        | Inr filtered \<Rightarrow> st\<lparr>rendered := Some filtered\<rparr>)
              | _ \<Rightarrow> emit (ConsoleWarn search_warning) st))"

text \<open>
  A listing the filter can read: not \<open>null\<close>, with a title and a description that are
  strings or falsy. Its lower-cased texts are then defined.
\<close>

definition text_field :: "json \<Rightarrow> string \<Rightarrow> string option" where
  "text_field l k =
     (case js_or (own_prop l k) (Some (JStr '''')) of Some (JStr s) \<Rightarrow> Some s | _ \<Rightarrow> None)"

definition readable_listing :: "json \<Rightarrow> bool" where
  "readable_listing l =
     (l \<noteq> JNull \<and> text_field l ''title'' \<noteq> None \<and> text_field l ''description'' \<noteq> None)"

definition matches_query :: "platform \<Rightarrow> string \<Rightarrow> json \<Rightarrow> bool" where
  "matches_query p q l =
     (js_includes (toLowerCase p (the (text_field l ''title''))) q \<or>
      js_includes (toLowerCase p (the (text_field l ''description''))) q)"

section \<open>Other calls of the API\<close>

text \<open>
  The remaining functions that call the service. Five of them catch what they throw
  (\<open>loadDashboardListings\<close>, \<open>loadHomeListings\<close>, \<open>loginUser\<close>,
  \<open>registerUser\<close> and \<open>handleCreateListing\<close>): of these the model is the
  \<open>try\<close> block from its request on, with the error the block throws or else the
  value it has computed once the response is read.
\<close>

subsection \<open>Listing grids (dashboard.js, index.js)\<close>

definition LISTINGS_URL :: string where
  "LISTINGS_URL = API_BASE @ ''/auction/listings?_seller=true&_bids=true&sort=created&sortOrder=desc''"

text \<open>
  Both grids throw \<open>API error: status\<close> on a response that is not ok, without reading
  its body, and otherwise compute \<open>result.data || []\<close>.
\<close>

definition loadDashboardListings_try :: "platform \<Rightarrow> jsval gateway" where
  "loadDashboardListings_try p =
     (let req = \<lparr> req_method = ''GET'',
                  req_url = LISTINGS_URL,
                  req_headers = [(''X-Noroff-API-Key'', API_KEY)],
                  req_body = None \<rparr>
      in ([req],
          (case fetch p req of
             Rejected \<Rightarrow> Inl NetworkError
           | Response status body \<Rightarrow>
               if \<not> is_ok status then Inl (Error (''API error: '' @ dec status))
               else (case body of
                       None \<Rightarrow> Inl SyntaxError
                     | Some result \<Rightarrow>
                         (case get_prop (Some result) ''data'' of
                            Inl e \<Rightarrow> Inl e
                          | Inr d \<Rightarrow> Inr (js_or d (Some (JArr []))))))))"

definition loadHomeListings_try :: "platform \<Rightarrow> jsval gateway" where
  "loadHomeListings_try p =
     (let req = \<lparr> req_method = ''GET'',
                  req_url = LISTINGS_URL,
                  req_headers = [(''X-Noroff-API-Key'', API_KEY)],
                  req_body = None \<rparr>
      in ([req],
          (case fetch p req of
             Rejected \<Rightarrow> Inl NetworkError
           | Response status body \<Rightarrow>
               if \<not> is_ok status then Inl (Error (''API error: '' @ dec status))
               else (case body of
                       None \<Rightarrow> Inl SyntaxError
                     | Some result \<Rightarrow>
                         (case get_prop (Some result) ''data'' of
                            Inl e \<Rightarrow> Inl e
                          | Inr d \<Rightarrow> Inr (js_or d (Some (JArr []))))))))"

subsection \<open>Login and registration (login.js, register.js)\<close>

definition LOGIN_URL :: string where
  "LOGIN_URL = API_BASE @ ''/auth/login''"

definition REGISTER_URL :: string where
  "REGISTER_URL = API_BASE @ ''/auth/register''"

text \<open>
  \<open>errors.map((err) => err.message)\<close> on an array: reading the message of a
  \<open>null\<close> entry throws.
\<close>

fun error_messages :: "json list \<Rightarrow> error + jsval list" where
  "error_messages [] = Inr []"
| "error_messages (err # errs) =
     (case get_prop (Some err) ''message'' of
        Inl e \<Rightarrow> Inl e
      | Inr m \<Rightarrow> (case error_messages errs of Inl e \<Rightarrow> Inl e | Inr ms \<Rightarrow> Inr (m # ms)))"

text \<open>\<open>items.join(sep)\<close> on the texts of the items.\<close>

fun join_with :: "string \<Rightarrow> string list \<Rightarrow> string" where
  "join_with sep [] = ''''"
| "join_with sep [s] = s"
| "join_with sep (s # t # ss) = s @ sep @ join_with sep (t # ss)"

text \<open>
  \<open>result?.errors?.map((err) => err.message).join(", ")\<close>: \<open>undefined\<close> when
  the result or its \<open>errors\<close> is \<open>null\<close> or missing; any other \<open>errors\<close>
  that is not an array has no \<open>map\<close> to call, which throws.
\<close>

definition joined_errors :: "platform \<Rightarrow> jsval \<Rightarrow> error + jsval" where
  "joined_errors p result =
     (case opt_prop result ''errors'' of
        None \<Rightarrow> Inr None
      | Some JNull \<Rightarrow> Inr None
      | Some (JArr errs) \<Rightarrow>
          (case error_messages errs of
             Inl e \<Rightarrow> Inl e
           | Inr ms \<Rightarrow> Inr (Some (JStr (join_with '', '' (map (join_item p) ms)))))
      | Some v \<Rightarrow> Inl TypeError)"

text \<open>
  The error that \<open>loginUser\<close> and \<open>registerUser\<close> throw on a response that is not
  ok; the two functions have the same three lines for it.
\<close>

definition errorMessage :: "platform \<Rightarrow> json \<Rightarrow> error" where
  "errorMessage p result =
     (case joined_errors p (Some result) of
        Inl e \<Rightarrow> e
      | Inr joined \<Rightarrow>
          Error (js_String p
            (js_or joined
               (js_or (opt_prop (Some result) ''message'')
                  (Some (JStr ''Something went wrong.''))))))"

text \<open>
  \<open>loginUser\<close> reads the body before it looks at the status, and saves the session
  when the response carries one.
\<close>

definition loginUser_try :: "platform \<Rightarrow> json \<Rightarrow> storage \<Rightarrow> storage gateway" where
  "loginUser_try p credentials st =
     (let req = \<lparr> req_method = ''POST'',
                  req_url = LOGIN_URL,
                  req_headers = [(''Content-Type'', ''application/json'')],
                  req_body = Some (JSON_stringify p credentials) \<rparr>
      in ([req],
          (case fetch p req of
             Rejected \<Rightarrow> Inl NetworkError
           | Response status body \<Rightarrow>
               (case body of
                  None \<Rightarrow> Inl SyntaxError
                | Some result \<Rightarrow>
                    if \<not> is_ok status then Inl (errorMessage p result)
                    else if truthy (Some result) \<and> truthy (own_prop result ''data'')
                    then saveAuth p (own_prop result ''data'') st
                    else Inr st))))"

definition registerUser_try :: "platform \<Rightarrow> json \<Rightarrow> unit gateway" where
  "registerUser_try p userDetails =
     (let req = \<lparr> req_method = ''POST'',
                  req_url = REGISTER_URL,
                  req_headers = [(''Content-Type'', ''application/json'')],
                  req_body = Some (JSON_stringify p userDetails) \<rparr>
      in ([req],
          (case fetch p req of
             Rejected \<Rightarrow> Inl NetworkError
           | Response status body \<Rightarrow>
               (case body of
                  None \<Rightarrow> Inl SyntaxError
                | Some result \<Rightarrow>
                    if \<not> is_ok status then Inl (errorMessage p result) else Inr ()))))"

subsection \<open>Profile page (profile.js)\<close>

definition profile_get :: "platform \<Rightarrow> string \<Rightarrow> string \<Rightarrow> string \<Rightarrow> request" where
  "profile_get p token name rest =
     \<lparr> req_method = ''GET'',
       req_url = PROFILE_BASE @ ''/'' @ encodeURIComponent p name @ rest,
       req_headers = [(''Authorization'', ''Bearer '' @ token), (''X-Noroff-API-Key'', API_KEY)],
       req_body = None \<rparr>"

text \<open>
  The four requests of \<open>fetchProfileWithListings\<close>, all sent before any response is
  awaited: the profile, its listings, its bids and its wins.
\<close>

definition profile_requests :: "platform \<Rightarrow> string \<Rightarrow> string \<Rightarrow> request list" where
  "profile_requests p token name =
     [profile_get p token name '''',
      profile_get p token name ''/listings?_bids=true'',
      profile_get p token name ''/bids?_listings=true'',
      profile_get p token name ''/wins?_bids=true'']"

text \<open>
  \<open>Promise.all\<close> rejects when one of the four requests does. The four statuses are
  then tested in turn, and no body is read before all four are ok; all four bodies are
  parsed before the \<open>data\<close> of any is read.
\<close>

definition fetchProfileWithListings ::
  "platform \<Rightarrow> string \<Rightarrow> string \<Rightarrow> (jsval \<times> jsval \<times> jsval \<times> jsval) gateway" where
  "fetchProfileWithListings p token name =
     (profile_requests p token name,
      (case map (fetch p) (profile_requests p token name) of
         [Response s1 b1, Response s2 b2, Response s3 b3, Response s4 b4] \<Rightarrow>
           if \<not> is_ok s1 then Inl (Error (''Failed to load profile: '' @ dec s1))
           else if \<not> is_ok s2 then Inl (Error (''Failed to load listings: '' @ dec s2))
           else if \<not> is_ok s3 then Inl (Error (''Failed to load bids: '' @ dec s3))
           else if \<not> is_ok s4 then Inl (Error (''Failed to load wins: '' @ dec s4))
           else
             (case (b1, b2, b3, b4) of
                (Some profileJson, Some listingsJson, Some bidsJson, Some winsJson) \<Rightarrow>
                  (case (get_prop (Some profileJson) ''data'', get_prop (Some listingsJson) ''data'',
                         get_prop (Some bidsJson) ''data'', get_prop (Some winsJson) ''data'') of
                     (Inr profile, Inr listings, Inr bids, Inr wins) \<Rightarrow>
                       Inr (profile, listings, bids, wins)
                   | _ \<Rightarrow> Inl TypeError)
              | _ \<Rightarrow> Inl SyntaxError)
       | _ \<Rightarrow> Inl NetworkError))"

text \<open>
  \<open>updateProfileOnServer\<close> parses the body before it looks at the status, with no
  \<open>catch\<close> for a body that is not JSON.
\<close>

definition updateProfileOnServer :: "platform \<Rightarrow> string \<Rightarrow> string \<Rightarrow> json \<Rightarrow> jsval gateway" where
  "updateProfileOnServer p token name payload =
     (let req = \<lparr> req_method = ''PUT'',
                  req_url = PROFILE_BASE @ ''/'' @ encodeURIComponent p name,
                  req_headers =
                    [(''Content-Type'', ''application/json''),
                     (''Authorization'', ''Bearer '' @ token),
                     (''X-Noroff-API-Key'', API_KEY)],
                  req_body = Some (JSON_stringify p payload) \<rparr>
      in ([req],
          (case fetch p req of
             Rejected \<Rightarrow> Inl NetworkError
           | Response status body \<Rightarrow>
               (case body of
                  None \<Rightarrow> Inl SyntaxError
                | Some result \<Rightarrow>
                    if \<not> is_ok status
                    then Inl (Error (js_String p
                           (js_or (first_error_message (opt_prop (Some result) ''errors''))
                              (Some (JStr (''Failed to update profile ('' @ dec status @ '')''))))))
                    else get_prop (Some result) ''data''))))"

subsection \<open>Create listing (create-listing.js)\<close>

definition CREATE_LISTING_URL :: string where
  "CREATE_LISTING_URL = ''https://v2.api.noroff.dev'' @ ''/auction/listings''"

text \<open>
  The \<open>try\<close> block of \<open>handleCreateListing\<close>, given the token of the session and
  the payload built from the form.
\<close>

definition handleCreateListing_try :: "platform \<Rightarrow> string \<Rightarrow> json \<Rightarrow> unit gateway" where
  "handleCreateListing_try p token payload =
     (let req = \<lparr> req_method = ''POST'',
                  req_url = CREATE_LISTING_URL,
                  req_headers =
                    [(''Content-Type'', ''application/json''),
                     (''Authorization'', ''Bearer '' @ token),
                     (''X-Noroff-API-Key'', API_KEY)],
                  req_body = Some (JSON_stringify p payload) \<rparr>
      in ([req],
          (case fetch p req of
             Rejected \<Rightarrow> Inl NetworkError
           | Response status body \<Rightarrow>
               (let json = json_or_empty body
                in if \<not> is_ok status
                   then Inl (Error (js_String p
                          (js_or (first_error_message (opt_prop (Some json) ''errors''))
                             (js_or (opt_prop (Some json) ''message'')
                                (Some (JStr (''Failed to create listing ('' @ dec status @ '')'')))))))
                   else Inr ()))))"

section \<open>A sample browser\<close>

text \<open>
  Concrete values of the browser functions, on the part of their domain that the worked
  examples below use: decimal digit strings for \<open>Number\<close>, ASCII letters for
  \<open>toLowerCase\<close>, blanks for \<open>trim\<close>, whole numbers for the conversion to
  a string, and the values of \<open>JSON.stringify\<close>,
  \<open>JSON.parse\<close> and \<open>Date.parse\<close> at the few texts listed.
\<close>

fun digits_value :: "string \<Rightarrow> nat \<Rightarrow> nat option" where
  "digits_value [] acc = Some acc"
| "digits_value (c # cs) acc =
     (if 48 \<le> (of_char c :: nat) \<and> (of_char c :: nat) \<le> 57
      then digits_value cs (10 * acc + ((of_char c :: nat) - 48))
      else None)"

definition sample_Number :: "string \<Rightarrow> jsnumber" where
  "sample_Number s =
     (case digits_value s 0 of None \<Rightarrow> NaN | Some n \<Rightarrow> Num (real n))"

definition ascii_lower :: "char \<Rightarrow> char" where
  "ascii_lower c =
     (case map_of (zip ''ABCDEFGHIJKLMNOPQRSTUVWXYZ'' ''abcdefghijklmnopqrstuvwxyz'') c of
        None \<Rightarrow> c
      | Some l \<Rightarrow> l)"

definition sample_trim :: "string \<Rightarrow> string" where
  "sample_trim s = rev (dropWhile (\<lambda>c. c = CHR '' '') (rev (dropWhile (\<lambda>c. c = CHR '' '') s)))"

definition sample_profile :: json where
  "sample_profile = JObj [(''name'', JStr ''ann''), (''credits'', JNum 1000)]"

definition sample_profile_text :: string where
  \<open>sample_profile_text = ''{"name":"ann","credits":1000}''\<close>

definition sample_stringify :: "json \<Rightarrow> string" where
  \<open>sample_stringify v =
     (if v = sample_profile then sample_profile_text
      else if v = JObj [(''name'', JStr ''bob'')] then ''{"name":"bob"}''
      else if v = JObj [(''amount'', JNum 150)] then ''{"amount":150}''
      else if v = JObj [] then ''{}''
      else ''null'')\<close>

definition sample_parse :: "string \<Rightarrow> error + json" where
  \<open>sample_parse s =
     (if s = sample_profile_text then Inr sample_profile
      else if s = ''{"name":"bob"}'' then Inr (JObj [(''name'', JStr ''bob'')])
      else if s = ''{}'' then Inr (JObj [])
      else if s = ''null'' then Inr JNull
      else Inl SyntaxError)\<close>

definition sample_Date_time :: "json \<Rightarrow> int option" where
  "sample_Date_time v =
     (case v of
        JNum x \<Rightarrow> Some \<lfloor>x\<rfloor>
      | JStr s \<Rightarrow> map_of [(''1970-01-01T00:00:00.000Z'', 0),
                           (''1970-01-01T01:00:00.000Z'', 3600000),
                           (''1970-01-03T02:00:00.000Z'', 180000000)] s
      | _ \<Rightarrow> None)"

definition sample_ToString :: "json \<Rightarrow> string" where
  "sample_ToString v =
     (case v of
        JNull \<Rightarrow> ''null''
      | JBool b \<Rightarrow> (if b then ''true'' else ''false'')
      | JNum x \<Rightarrow> (if 0 \<le> x \<and> x = of_int \<lfloor>x\<rfloor> then dec (nat \<lfloor>x\<rfloor>) else ''NaN'')
      | JStr s \<Rightarrow> s
      | _ \<Rightarrow> ''[object Object]'')"

definition sample_platform :: platform where
  "sample_platform =
     \<lparr> now = 3600000,
       Date_time = sample_Date_time,
       js_Number = sample_Number,
       ToString = sample_ToString,
       JSON_parse = sample_parse,
       JSON_stringify = sample_stringify,
       toLowerCase = map ascii_lower,
       trim = sample_trim,
       encodeURIComponent = (\<lambda>s. s),
       toLocaleString = (\<lambda>kind v. ''''),
       engine_message = (\<lambda>e. ''''),
       fetch = (\<lambda>req. Rejected) \<rparr>"

section \<open>What the claims are stated with\<close>

text \<open>The bids a listing carries: its \<open>bids\<close> field when that is an array.\<close>

definition bids_of :: "json \<Rightarrow> json list" where
  "bids_of l = (case own_prop l ''bids'' of Some (JArr bids) \<Rightarrow> bids | _ \<Rightarrow> [])"

text \<open>
  The phrase that the claim on \<open>getTimeRemaining\<close> asks for, written from its words
  and not from the code: \<open>n\<close> units of time in the correct grammatical number, the
  singular for exactly one unit and the plural for any other count.
\<close>

definition about :: "int \<Rightarrow> string \<Rightarrow> string" where
  "about n unit = ''in about '' @ dec (nat n) @ '' '' @ unit @ (if n = 1 then '''' else ''s'')"

text \<open>
  What the three message chains read from the body of a failed response:
  \<open>errors?.[0]?.message\<close> and \<open>message\<close>.
\<close>

definition body_first_error :: "json option \<Rightarrow> jsval" where
  "body_first_error body = first_error_message (opt_prop (Some (json_or_empty body)) ''errors'')"

definition body_message :: "json option \<Rightarrow> jsval" where
  "body_message body = opt_prop (Some (json_or_empty body)) ''message''"

text \<open>
  What the login and registration pages read from it: the entries of \<open>errors\<close> when
  that is a list, and the text of all their messages, joined by a comma and a blank.
\<close>

definition body_error_list :: "json option \<Rightarrow> json list" where
  "body_error_list body = (case opt_prop body ''errors'' of Some (JArr errs) \<Rightarrow> errs | _ \<Rightarrow> [])"

definition body_all_errors :: "platform \<Rightarrow> json option \<Rightarrow> string" where
  "body_all_errors p body =
     join_with '', '' (map (\<lambda>err. join_item p (own_prop err ''message'')) (body_error_list body))"

text \<open>
  A body that can be read as JSON and whose \<open>errors\<close> is missing, \<open>null\<close>, or a
  list none of whose entries is \<open>null\<close>: the shape of the envelope of the service.
\<close>

definition errors_listed :: "json option \<Rightarrow> bool" where
  "errors_listed body =
     (body \<noteq> None \<and>
      (case opt_prop body ''errors'' of
         None \<Rightarrow> True
       | Some JNull \<Rightarrow> True
       | Some (JArr errs) \<Rightarrow> JNull \<notin> set errs
       | Some v \<Rightarrow> False))"

text \<open>The query the search runs with: the text of the input, trimmed and in lower case.\<close>

definition search_query :: "platform \<Rightarrow> element \<Rightarrow> string" where
  "search_query p input = toLowerCase p (trim p (elem_value input))"

text \<open>The request with which the edit page fetches a listing.\<close>

definition edit_fetch_request :: "string \<Rightarrow> string \<Rightarrow> request" where
  "edit_fetch_request token listingId =
     \<lparr> req_method = ''GET'',
       req_url = LISTINGS_BASE @ ''/'' @ listingId @ ''?_seller=true&_bids=true'',
       req_headers = edit_headers token,
       req_body = None \<rparr>"

section \<open>Sample records, pages and services\<close>

definition sample_listing :: json where
  "sample_listing =
     JObj [(''id'', JStr ''L1''),
           (''title'', JStr ''Blue Vase''),
           (''description'', JStr ''Ceramic, hand painted''),
           (''seller'', JObj [(''name'', JStr ''bob'')]),
           (''bids'', JArr [JObj [(''amount'', JNum 100)],
                           JObj [(''amount'', JStr ''900'')],
                           JObj [(''amount'', JNum 40)]])]"

definition negative_bid_listing :: json where
  "negative_bid_listing = JObj [(''bids'', JArr [JObj [(''amount'', JNum (- 5))]])]"

definition null_bid_listing :: json where
  "null_bid_listing = JObj [(''bids'', JArr [JNull])]"

text \<open>A store whose token belongs to the profile saved beside it.\<close>

definition stale_store :: storage where
  "stale_store = [TOKEN_KEY \<mapsto> ''tok-ann'', PROFILE_KEY \<mapsto> sample_profile_text]"

text \<open>A browser whose every request is answered with the same response.\<close>

definition answering :: "platform \<Rightarrow> nat \<Rightarrow> json option \<Rightarrow> platform" where
  "answering p status body = p\<lparr>fetch := (\<lambda>req. Response status body)\<rparr>"

text \<open>Bodies of failed responses: with structured errors, and with a message only.\<close>

definition errors_body :: json where
  "errors_body =
     JObj [(''errors'', JArr [JObj [(''message'', JStr ''Title is required'')]]),
           (''message'', JStr ''Bad Request'')]"

definition message_body :: json where
  "message_body = JObj [(''message'', JStr ''Bad Request'')]"

text \<open>A body with two structured errors.\<close>

definition two_errors_body :: json where
  "two_errors_body =
     JObj [(''errors'', JArr [JObj [(''message'', JStr ''Invalid email'')],
                             JObj [(''message'', JStr ''Password too short'')]]),
           (''message'', JStr ''Bad Request'')]"

text \<open>
  A service that knows the profile of \<open>ann\<close> and nothing of the listings, bids and
  wins under it.
\<close>

definition profile_only_platform :: platform where
  "profile_only_platform =
     sample_platform\<lparr>fetch := (\<lambda>req.
       if req_url req = PROFILE_BASE @ ''/ann''
       then Response 200 (Some (JObj [(''data'', sample_profile)]))
       else Response 404 None)\<rparr>"

definition blank_element :: element where
  "blank_element =
     \<lparr> textContent = '''', elem_value = '''', disabled = False, innerHTML = '''',
       src = '''', alt = '''' \<rparr>"

definition lamp_listing :: json where
  "lamp_listing =
     JObj [(''id'', JStr ''L2''), (''title'', JStr ''Desk Lamp''),
           (''seller'', JObj [(''name'', JStr ''ann'')])]"

text \<open>A dashboard with two listings loaded and a query typed into the search box.\<close>

definition sample_search_page :: "string \<Rightarrow> search_page" where
  "sample_search_page typed =
     \<lparr> storage = Map.empty,
       dom = [''#home-search-query'' \<mapsto> blank_element\<lparr>elem_value := typed\<rparr>],
       trace = [],
       window_allListings = Some (JArr [sample_listing, lamp_listing]),
       has_renderListings = True,
       rendered = None \<rparr>"

text \<open>
  The edit page of the listing \<open>L1\<close> as the viewer \<open>ann\<close> opens it, with its form in
  place.
\<close>

definition sample_edit_page :: edit_page where
  "sample_edit_page =
     \<lparr> storage = stale_store,
       dom = [''#editListingForm'' \<mapsto> blank_element,
              ''#listingTitleInput'' \<mapsto> blank_element,
              ''#listingDescriptionInput'' \<mapsto> blank_element,
              ''#mediaUrlsInput'' \<mapsto> blank_element,
              ''#endDateInput'' \<mapsto> blank_element,
              ''#endTimeInput'' \<mapsto> blank_element,
              ''#saveListingButton'' \<mapsto> blank_element,
              ''#deleteListingButton'' \<mapsto> blank_element],
       trace = [],
       url_id = Some ''L1'',
       submit_listener = False,
       delete_listener = False \<rparr>"

text \<open>A service that answers every request with the listing \<open>L1\<close> of the seller \<open>bob\<close>.\<close>

definition serving_sample_listing :: platform where
  "serving_sample_listing = answering sample_platform 200 (Some (JObj [(''data'', sample_listing)]))"

text \<open>
  The detail page of the listing \<open>L1\<close>, whose highest bid is 100, as the viewer \<open>ann\<close>
  sees it with an amount typed into the bid form.
\<close>

definition sample_detail_page :: "string \<Rightarrow> detail_page" where
  "sample_detail_page typed =
     \<lparr> storage = stale_store,
       dom = [''#placeBidForm'' \<mapsto> blank_element,
              ''#bidAmountInput'' \<mapsto> blank_element\<lparr>elem_value := typed\<rparr>,
              ''#placeBidButton'' \<mapsto> blank_element\<lparr>textContent := ''Place Bid''\<rparr>,
              ''#listingTotalBids'' \<mapsto> blank_element\<lparr>textContent := ''3''\<rparr>,
              ''#listingHighestBid'' \<mapsto> blank_element\<lparr>textContent := ''100 credits''\<rparr>],
       trace = [],
       currentListing = Some sample_listing \<rparr>"

text \<open>The card of the same listing on the dashboard.\<close>

definition sample_card :: "string \<Rightarrow> card_page" where
  "sample_card typed =
     \<lparr> storage = stale_store,
       dom = Map.empty,
       trace = [],
       card_listing = sample_listing,
       card_id = Some (JStr ''L1''),
       isOwnListing = False,
       currentUser = Some sample_profile,
       bidBtn = blank_element\<lparr>textContent := ''Bid''\<rparr>,
       bidInput = blank_element\<lparr>elem_value := typed\<rparr>,
       badgeEl = blank_element\<lparr>textContent := ''3 bids''\<rparr>,
       bidsTextEl = blank_element\<lparr>textContent := ''3 bids so far''\<rparr>,
       highestBidEl = blank_element\<lparr>textContent := ''100 credits''\<rparr> \<rparr>"

text \<open>
  The listing \<open>L1\<close> after a bid of 150 has been accepted, and a service that accepts
  the bid and then serves that listing and the profile of \<open>ann\<close>.
\<close>

definition fresh_listing :: json where
  "fresh_listing =
     JObj [(''id'', JStr ''L1''),
           (''title'', JStr ''Blue Vase''),
           (''description'', JStr ''Ceramic, hand painted''),
           (''seller'', JObj [(''name'', JStr ''bob'')]),
           (''bids'', JArr [JObj [(''amount'', JNum 100)],
                           JObj [(''amount'', JStr ''900'')],
                           JObj [(''amount'', JNum 40)],
                           JObj [(''amount'', JNum 150)]]),
           (''_count'', JObj [(''bids'', JNum 4)])]"

definition accepting_platform :: platform where
  "accepting_platform =
     sample_platform\<lparr>fetch := (\<lambda>req.
       if req_method req = ''POST'' then Response 201 (Some (JObj [(''data'', JObj [])]))
       else if req_url req = PROFILE_BASE @ ''/ann''
       then Response 200 (Some (JObj [(''data'', sample_profile)]))
       else Response 200 (Some (JObj [(''data'', fresh_listing)])))\<rparr>"

text \<open>A service that turns every request down.\<close>

definition refusing_platform :: platform where
  "refusing_platform = answering sample_platform 400 (Some errors_body)"

text \<open>A dashboard whose one listing has a number for a title.\<close>

definition numeric_title_page :: search_page where
  "numeric_title_page =
     \<lparr> storage = Map.empty,
       dom = [''#home-search-query'' \<mapsto> blank_element\<lparr>elem_value := ''vase''\<rparr>],
       trace = [],
       window_allListings = Some (JArr [JObj [(''title'', JNum 5)]]),
       has_renderListings = True,
       rendered = None \<rparr>"

section \<open>Properties\<close>

subsection \<open>The reduce over the bids\<close>

lemma bid_step_non_null:
  "bid \<noteq> JNull \<Longrightarrow> bid_step mx bid = Inr (max mx (amount_of bid))"
  by (cases bid) (auto simp: bid_step_def amount_of_def Let_def max_def
      split: option.splits json.splits)

lemma reduce_bids_Max:
  "JNull \<notin> set bids \<Longrightarrow> reduce_bids bids mx = Inr (Max (insert mx (set (map amount_of bids))))"
proof (induction bids arbitrary: mx)
  case Nil
  then show ?case by simp
next
  case (Cons bid bids)
  have step: "bid_step mx bid = Inr (max mx (amount_of bid))"
    using Cons.prems by (intro bid_step_non_null) auto
  have rest: "reduce_bids bids (max mx (amount_of bid)) =
      Inr (Max (insert (max mx (amount_of bid)) (set (map amount_of bids))))"
    using Cons.prems by (intro Cons.IH) auto
  have "Max (insert (max mx (amount_of bid)) (set (map amount_of bids))) =
      Max (insert mx (insert (amount_of bid) (set (map amount_of bids))))"
    by (cases "set (map amount_of bids) = {}") (simp_all add: max.assoc)
  with step rest show ?case by simp
qed

lemma reduce_bids_null:
  "JNull \<in> set bids \<Longrightarrow> reduce_bids bids mx = Inl TypeError"
proof (induction bids arbitrary: mx)
  case Nil
  then show ?case by simp
next
  case (Cons bid bids)
  show ?case
  proof (cases "bid = JNull")
    case True
    then show ?thesis by (simp add: bid_step_def)
  next
    case False
    with Cons show ?thesis by (simp add: bid_step_non_null)
  qed
qed

subsection \<open>getHighestBidAmount\<close>

lemma getHighestBidAmount_bids_of:
  "l \<noteq> JNull \<Longrightarrow>
   getHighestBidAmount (Some l) = (if bids_of l = [] then Inr 0 else reduce_bids (bids_of l) 0)"
  by (cases l) (auto simp: getHighestBidAmount_def bids_of_def split: option.splits json.splits)

lemma getHighestBidAmount_null_bid:
  "l \<noteq> JNull \<Longrightarrow> JNull \<in> set (bids_of l) \<Longrightarrow> getHighestBidAmount (Some l) = Inl TypeError"
  by (auto simp: getHighestBidAmount_bids_of reduce_bids_null)

text \<open>
  Claim C4, as the code has it. For every listing none of whose bids is \<open>null\<close>,
  \<open>getHighestBidAmount\<close> returns without throwing: 0 when the \<open>bids\<close> field is
  missing, not an array or empty, and otherwise the largest of 0 and the amounts of the
  bids, where an amount that is not a number counts as 0. The result is the maximum of
  the amounts whenever one of them is not negative.
\<close>

theorem getHighestBidAmount_max:
  assumes "l \<noteq> JNull" and "JNull \<notin> set (bids_of l)"
  shows "getHighestBidAmount (Some l) = Inr (Max (insert 0 (set (map amount_of (bids_of l))))) \<and>
         (bids_of l = [] \<longrightarrow> getHighestBidAmount (Some l) = Inr 0) \<and>
         ((\<exists>b \<in> set (bids_of l). 0 \<le> amount_of b) \<longrightarrow>
            getHighestBidAmount (Some l) = Inr (Max (set (map amount_of (bids_of l)))))"
proof -
  have general: "getHighestBidAmount (Some l) = Inr (Max (insert 0 (set (map amount_of (bids_of l)))))"
    using assms by (simp add: getHighestBidAmount_bids_of reduce_bids_Max)
  have "Max (insert 0 (set (map amount_of (bids_of l)))) = Max (set (map amount_of (bids_of l)))"
    if "\<exists>b \<in> set (bids_of l). 0 \<le> amount_of b"
  proof -
    from that obtain b where b: "b \<in> set (bids_of l)" "0 \<le> amount_of b" by blast
    let ?A = "set (map amount_of (bids_of l))"
    have ne: "?A \<noteq> {}" and fin: "finite ?A" using b by auto
    have "amount_of b \<le> Max ?A" using b by (intro Max_ge) auto
    with b have "0 \<le> Max ?A" by linarith
    with ne fin show ?thesis by (simp add: max_def)
  qed
  with general show ?thesis by simp
qed

theorem getHighestBidAmount_max_witness:
  "sample_listing \<noteq> JNull \<and> JNull \<notin> set (bids_of sample_listing) \<and>
   (\<exists>b \<in> set (bids_of sample_listing). 0 \<le> amount_of b) \<and>
   getHighestBidAmount (Some sample_listing) = Inr 100"
proof -
  have a: "sample_listing \<noteq> JNull" by (simp add: sample_listing_def)
  have b: "JNull \<notin> set (bids_of sample_listing)" by (simp add: sample_listing_def bids_of_def)
  have c: "\<exists>b \<in> set (bids_of sample_listing). 0 \<le> amount_of b"
    by (simp add: sample_listing_def bids_of_def amount_of_def)
  have d: "Max (set (map amount_of (bids_of sample_listing))) = 100"
    by (simp add: sample_listing_def bids_of_def amount_of_def)
  from getHighestBidAmount_max [OF a b] c
  have "getHighestBidAmount (Some sample_listing) =
      Inr (Max (set (map amount_of (bids_of sample_listing))))"
    by blast
  with a b c d show ?thesis by simp
qed

text \<open>
  The claim as it was written fails on a bid with a negative amount, where the result is 0
  and not the maximum, and on a \<open>null\<close> entry among the bids, where the call throws.
\<close>

theorem getHighestBidAmount_counterexample:
  "getHighestBidAmount (Some negative_bid_listing) = Inr 0 \<and>
   Max (set (map amount_of (bids_of negative_bid_listing))) = - 5 \<and>
   getHighestBidAmount (Some null_bid_listing) = Inl TypeError"
  by (simp add: negative_bid_listing_def null_bid_listing_def getHighestBidAmount_def
      bid_step_def bids_of_def amount_of_def)

subsection \<open>getTimeRemaining\<close>

lemma nshow_nonneg: "0 \<le> n \<Longrightarrow> nshow (Some n) = dec (nat n)"
  by (simp add: nshow_def)

lemma getTimeRemaining_absent: "\<not> truthy endsAt \<Longrightarrow> getTimeRemaining p endsAt = ''''"
  by (simp add: getTimeRemaining_def)

lemma getTimeRemaining_past:
  "truthy endsAt \<Longrightarrow> Date_time p (the endsAt) = Some t \<Longrightarrow> t \<le> now p \<Longrightarrow>
   getTimeRemaining p endsAt = ''Ended''"
  by (simp add: getTimeRemaining_def nsub_def nle_def)

lemma getTimeRemaining_invalid:
  "truthy endsAt \<Longrightarrow> Date_time p (the endsAt) = None \<Longrightarrow>
   getTimeRemaining p endsAt = ''in about NaN minute''"
  by (simp add: getTimeRemaining_def nsub_def nle_def nge_def ngt_def nfloordiv_def nshow_def)

lemma getTimeRemaining_future:
  assumes "truthy endsAt" and "Date_time p (the endsAt) = Some t" and "now p + 60000 \<le> t"
  shows "getTimeRemaining p endsAt =
     (if 86400000 \<le> t - now p then about ((t - now p) div 86400000) ''day''
      else if 3600000 \<le> t - now p then about ((t - now p) div 3600000) ''hour''
      else about ((t - now p) div 60000) ''minute'')"
proof -
  let ?diff = "t - now p"
  have pos: "0 < ?diff" using assms by simp
  have h: "?diff div 60000 div 60 = ?diff div 3600000"
    by (simp add: zdiv_zmult2_eq [symmetric])
  have d: "?diff div 3600000 div 24 = ?diff div 86400000"
    by (simp add: zdiv_zmult2_eq [symmetric])
  have m1: "1 \<le> ?diff div 60000"
    using pos_imp_zdiv_pos_iff [of 60000 ?diff] assms(3) by linarith
  have h0: "0 \<le> ?diff div 3600000" using pos by simp
  have d0: "0 \<le> ?diff div 86400000" using pos by simp
  have dge: "1 \<le> ?diff div 86400000 \<longleftrightarrow> 86400000 \<le> ?diff"
    using pos_imp_zdiv_pos_iff [of 86400000 ?diff] by linarith
  have hge: "1 \<le> ?diff div 3600000 \<longleftrightarrow> 3600000 \<le> ?diff"
    using pos_imp_zdiv_pos_iff [of 3600000 ?diff] by linarith
  have plural: "(if 1 < n then ''s'' else '''') = (if n = 1 then '''' else ''s'')"
    if "1 \<le> n" for n :: int
    using that by auto
  have "getTimeRemaining p endsAt =
     (if 1 \<le> ?diff div 86400000 then about (?diff div 86400000) ''day''
      else if 1 \<le> ?diff div 3600000 then about (?diff div 3600000) ''hour''
      else about (?diff div 60000) ''minute'')"
  proof (cases "1 \<le> ?diff div 86400000")
    case True
    then show ?thesis
      using assms(1,2) pos plural [OF True]
      by (simp add: getTimeRemaining_def nsub_def nle_def nge_def ngt_def nfloordiv_def
          nshow_def about_def h d Let_def)
  next
    case day: False
    show ?thesis
    proof (cases "1 \<le> ?diff div 3600000")
      case True
      then show ?thesis
        using assms(1,2) pos day plural [OF True]
        by (simp add: getTimeRemaining_def nsub_def nle_def nge_def ngt_def nfloordiv_def
            nshow_def about_def h d Let_def)
    next
      case False
      then show ?thesis
        using assms(1,2) pos day plural [OF m1] m1
        by (simp add: getTimeRemaining_def nsub_def nle_def nge_def ngt_def nfloordiv_def
            nshow_def about_def h d Let_def)
    qed
  qed
  then show ?thesis by (simp only: dge hge)
qed

lemma getTimeRemaining_under_a_minute:
  assumes "truthy endsAt" and "Date_time p (the endsAt) = Some t"
    and "now p < t" and "t < now p + 60000"
  shows "getTimeRemaining p endsAt = ''in about 0 minute''"
proof -
  let ?diff = "t - now p"
  have pos: "0 < ?diff" using assms by simp
  have m: "?diff div 60000 = 0" using assms by simp
  have h: "?diff div 60000 div 60 = 0" by (simp add: m)
  have digit: "dec 0 = ''0''" by (simp add: dec.simps digit_char_def)
  show ?thesis
    using assms(1,2) pos
    by (simp add: getTimeRemaining_def nsub_def nle_def nge_def ngt_def nfloordiv_def
        nshow_def m digit Let_def)
qed

text \<open>
  Claim C3, as the code has it. \<open>getTimeRemaining\<close> returns the empty string when
  \<open>endsAt\<close> is falsy (absent, \<open>null\<close> or empty). For a truthy \<open>endsAt\<close>
  it returns \<open>Ended\<close> when the deadline has passed or is now, and when the deadline is
  a minute or more ahead it returns the phrase \<open>in about N unit\<close> for the largest of
  days, hours and minutes that applies, \<open>N\<close> whole units, in the singular for one unit
  and in the plural for more.
\<close>

theorem getTimeRemaining_cases:
  "(\<not> truthy endsAt \<longrightarrow> getTimeRemaining p endsAt = '''') \<and>
   (truthy endsAt \<and> Date_time p (the endsAt) = Some t \<and> t \<le> now p \<longrightarrow>
      getTimeRemaining p endsAt = ''Ended'') \<and>
   (truthy endsAt \<and> Date_time p (the endsAt) = Some t \<and> now p + 60000 \<le> t \<longrightarrow>
      getTimeRemaining p endsAt =
        (if 86400000 \<le> t - now p then about ((t - now p) div 86400000) ''day''
         else if 3600000 \<le> t - now p then about ((t - now p) div 3600000) ''hour''
         else about ((t - now p) div 60000) ''minute''))"
  using getTimeRemaining_absent [of endsAt p] getTimeRemaining_past [of endsAt p t]
    getTimeRemaining_future [of endsAt p t]
  by blast

lemma sample_now: "now sample_platform = 3600000"
  by (simp add: sample_platform_def)

lemma sample_Date_time_JNum: "Date_time sample_platform (JNum (of_int n)) = Some n"
  by (simp add: sample_platform_def sample_Date_time_def)

theorem getTimeRemaining_cases_witness:
  "\<not> truthy None \<and>
   getTimeRemaining sample_platform None = '''' \<and>
   truthy (Some (JNum 3600000)) \<and>
   Date_time sample_platform (JNum 3600000) = Some 3600000 \<and>
   3600000 \<le> now sample_platform \<and>
   getTimeRemaining sample_platform (Some (JNum 3600000)) = ''Ended'' \<and>
   Date_time sample_platform (JNum 180000000) = Some 180000000 \<and>
   now sample_platform + 60000 \<le> 180000000 \<and>
   getTimeRemaining sample_platform (Some (JNum 180000000)) = ''in about 2 days'' \<and>
   now sample_platform + 60000 \<le> 7200000 \<and>
   getTimeRemaining sample_platform (Some (JNum 7200000)) = ''in about 1 hour'' \<and>
   now sample_platform + 60000 \<le> 3720000 \<and>
   getTimeRemaining sample_platform (Some (JNum 3720000)) = ''in about 2 minutes'' \<and>
   now sample_platform + 60000 \<le> 3660000 \<and>
   getTimeRemaining sample_platform (Some (JNum 3660000)) = ''in about 1 minute''"
proof -
  have d1: "Date_time sample_platform (JNum 3600000) = Some 3600000"
    using sample_Date_time_JNum [of 3600000] by simp
  have d2: "Date_time sample_platform (JNum 180000000) = Some 180000000"
    using sample_Date_time_JNum [of 180000000] by simp
  have d3: "Date_time sample_platform (JNum 7200000) = Some 7200000"
    using sample_Date_time_JNum [of 7200000] by simp
  have d4: "Date_time sample_platform (JNum 3720000) = Some 3720000"
    using sample_Date_time_JNum [of 3720000] by simp
  have d5: "Date_time sample_platform (JNum 3660000) = Some 3660000"
    using sample_Date_time_JNum [of 3660000] by simp
  have digits: "dec 2 = ''2''" "dec (Suc 0) = ''1''"
    by (simp_all add: dec.simps digit_char_def)
  have r0: "getTimeRemaining sample_platform None = ''''"
    using getTimeRemaining_cases [of None sample_platform 0] by simp
  have r1: "getTimeRemaining sample_platform (Some (JNum 3600000)) = ''Ended''"
    using getTimeRemaining_cases [of "Some (JNum 3600000)" sample_platform 3600000] d1
    by (simp add: sample_now)
  have r2: "getTimeRemaining sample_platform (Some (JNum 180000000)) = ''in about 2 days''"
    using getTimeRemaining_cases [of "Some (JNum 180000000)" sample_platform 180000000] d2
    by (simp add: sample_now about_def digits)
  have r3: "getTimeRemaining sample_platform (Some (JNum 7200000)) = ''in about 1 hour''"
    using getTimeRemaining_cases [of "Some (JNum 7200000)" sample_platform 7200000] d3
    by (simp add: sample_now about_def digits)
  have r4: "getTimeRemaining sample_platform (Some (JNum 3720000)) = ''in about 2 minutes''"
    using getTimeRemaining_cases [of "Some (JNum 3720000)" sample_platform 3720000] d4
    by (simp add: sample_now about_def digits)
  have r5: "getTimeRemaining sample_platform (Some (JNum 3660000)) = ''in about 1 minute''"
    using getTimeRemaining_cases [of "Some (JNum 3660000)" sample_platform 3660000] d5
    by (simp add: sample_now about_def digits)
  from d1 d2 r0 r1 r2 r3 r4 r5 show ?thesis by (simp add: sample_now)
qed

text \<open>
  The claim as it was written fails in four places. An absent \<open>endsAt\<close> gives the
  empty string and not \<open>Ended\<close>, and so does the number 0, which is falsy although
  the date it stands for has passed. A text that is no date gives
  \<open>in about NaN minute\<close>. And with less than a minute left the phrase is
  \<open>in about 0 minute\<close>, which is not the plural that the count zero takes.
\<close>

theorem getTimeRemaining_counterexample:
  "getTimeRemaining sample_platform None = '''' \<and>
   Date_time sample_platform (JNum 0) = Some 0 \<and>
   0 \<le> now sample_platform \<and>
   getTimeRemaining sample_platform (Some (JNum 0)) = '''' \<and>
   Date_time sample_platform (JStr ''next week'') = None \<and>
   getTimeRemaining sample_platform (Some (JStr ''next week'')) = ''in about NaN minute'' \<and>
   Date_time sample_platform (JNum 3630000) = Some 3630000 \<and>
   now sample_platform < 3630000 \<and>
   getTimeRemaining sample_platform (Some (JNum 3630000)) = ''in about 0 minute'' \<and>
   about 0 ''minute'' = ''in about 0 minutes''"
proof -
  have a: "getTimeRemaining sample_platform None = ''''"
    "getTimeRemaining sample_platform (Some (JNum 0)) = ''''"
    by (simp_all add: getTimeRemaining_absent)
  have b: "Date_time sample_platform (JStr ''next week'') = None"
    by (simp add: sample_platform_def sample_Date_time_def)
  have c: "getTimeRemaining sample_platform (Some (JStr ''next week'')) = ''in about NaN minute''"
    using b by (simp add: getTimeRemaining_invalid)
  have d: "Date_time sample_platform (JNum 3630000) = Some 3630000"
    using sample_Date_time_JNum [of 3630000] by simp
  have e: "getTimeRemaining sample_platform (Some (JNum 3630000)) = ''in about 0 minute''"
    using d by (simp add: getTimeRemaining_under_a_minute [where t = 3630000] sample_now)
  have f: "Date_time sample_platform (JNum 0) = Some 0"
    using sample_Date_time_JNum [of 0] by simp
  have g: "about 0 ''minute'' = ''in about 0 minutes''"
    by (simp add: about_def dec.simps digit_char_def)
  from a b c d e f g show ?thesis by (simp add: sample_now)
qed

subsection \<open>Auth store\<close>

lemma saveAuth_object:
  "data \<noteq> JNull \<Longrightarrow>
   saveAuth p (Some data) st =
     Inr ((if truthy (own_prop data ''accessToken'')
           then st(TOKEN_KEY \<mapsto> js_String p (own_prop data ''accessToken'')) else st)
          (PROFILE_KEY \<mapsto> JSON_stringify p (JObj (without_token (own_props data)))))"
  by (cases data) (simp_all add: saveAuth_def Let_def)

lemma keys_differ: "TOKEN_KEY \<noteq> PROFILE_KEY"
  by (simp add: TOKEN_KEY_def PROFILE_KEY_def)

lemma without_token_no_token: "map_of (without_token kvs) ''accessToken'' = None"
  by (induction kvs) (auto simp: without_token_def)

lemma update_fresh_key: "k \<notin> fst ` set R \<Longrightarrow> AList.update k v R = R @ [(k, v)]"
  by (induction R) auto

lemma without_token_absent:
  "map_of P ''accessToken'' = None \<Longrightarrow> without_token P = P"
  by (induction P) (auto simp: without_token_def split: if_splits)

lemma without_token_idem: "without_token (without_token P) = without_token P"
  by (simp add: without_token_def)

text \<open>
  The object literal \<open>{ accessToken: v, ...P }\<close>, with other fields \<open>R\<close> already in
  place: a token field of \<open>P\<close> takes the place of \<open>v\<close>, and the other fields of
  \<open>P\<close> follow in their order.
\<close>

lemma spread_over_token:
  assumes "distinct (map fst P)" and "fst ` set R \<inter> fst ` set P = {}"
    and "''accessToken'' \<notin> fst ` set R"
  shows "fold (\<lambda>kv. AList.update (fst kv) (snd kv)) P ((''accessToken'', v) # R) =
     (''accessToken'', (case map_of P ''accessToken'' of None \<Rightarrow> v | Some w \<Rightarrow> w)) #
       R @ without_token P"
  using assms
proof (induction P arbitrary: v R)
  case Nil
  then show ?case by (simp add: without_token_def)
next
  case (Cons kv P)
  obtain k w where kv: "kv = (k, w)" by (cases kv)
  have dist: "distinct (map fst P)" and fresh: "k \<notin> fst ` set P"
    using Cons.prems(1) kv by auto
  have kR: "k \<notin> fst ` set R" using Cons.prems(2) kv by auto
  have RP: "fst ` set R \<inter> fst ` set P = {}" using Cons.prems(2) by auto
  show ?case
  proof (cases "k = ''accessToken''")
    case True
    have none: "map_of P ''accessToken'' = None"
      using fresh True by (simp add: map_of_eq_None_iff)
    have "fold (\<lambda>kv. AList.update (fst kv) (snd kv)) (kv # P) ((''accessToken'', v) # R) =
        fold (\<lambda>kv. AList.update (fst kv) (snd kv)) P ((''accessToken'', w) # R)"
      using True kv by simp
    also have "\<dots> = (''accessToken'', w) # R @ without_token P"
      using Cons.IH [OF dist RP Cons.prems(3), of w] none by simp
    finally show ?thesis
      using True kv by (simp add: without_token_def)
  next
    case False
    have step: "AList.update k w ((''accessToken'', v) # R) = (''accessToken'', v) # (R @ [(k, w)])"
      using False kR by (simp add: update_fresh_key)
    have RP': "fst ` set (R @ [(k, w)]) \<inter> fst ` set P = {}"
      using RP fresh by auto
    have tok: "''accessToken'' \<notin> fst ` set (R @ [(k, w)])"
      using Cons.prems(3) False by auto
    have "fold (\<lambda>kv. AList.update (fst kv) (snd kv)) (kv # P) ((''accessToken'', v) # R) =
        fold (\<lambda>kv. AList.update (fst kv) (snd kv)) P ((''accessToken'', v) # (R @ [(k, w)]))"
      using kv step by simp
    also have "\<dots> =
        (''accessToken'', (case map_of P ''accessToken'' of None \<Rightarrow> v | Some w \<Rightarrow> w)) #
          (R @ [(k, w)]) @ without_token P"
      by (rule Cons.IH [OF dist RP' tok])
    finally show ?thesis
      using False kv by (simp add: without_token_def)
  qed
qed

lemma auth_data_fields:
  assumes "distinct (map fst P)"
  shows "auth_data T (Some (JObj P)) =
     Some (JObj ((''accessToken'',
                  (case map_of P ''accessToken'' of None \<Rightarrow> JStr T | Some w \<Rightarrow> w)) #
                 without_token P))"
  using spread_over_token [OF assms, of "[]" "JStr T"]
  by (simp add: auth_data_def object_assign_def)

text \<open>
  Claim C5, as the code has it. The callers save a session as
  \<open>saveAuth({ accessToken: T, ...P })\<close>, with a non-empty token \<open>T\<close> and a profile
  record \<open>P\<close>. Reading the profile back gives exactly \<open>P\<close> without any
  \<open>accessToken\<close> field of its own: the stored profile never holds the token key. And
  when \<open>P\<close> has no \<open>accessToken\<close> field, reading the token back gives exactly
  \<open>T\<close> and the profile read back is \<open>P\<close> itself. The browser is assumed to parse
  back the profile text that it has serialised, which is never empty.
\<close>

theorem saveAuth_roundtrip:
  assumes "T \<noteq> []" and "distinct (map fst P)"
    and "JSON_stringify p (JObj (without_token P)) \<noteq> []"
    and "JSON_parse p (JSON_stringify p (JObj (without_token P))) = Inr (JObj (without_token P))"
  shows "\<exists>st'. saveAuth p (auth_data T (Some (JObj P))) st = Inr st' \<and>
           getProfile p st' = Inr (JObj (without_token P)) \<and>
           own_prop (JObj (without_token P)) ''accessToken'' = None \<and>
           (own_prop (JObj P) ''accessToken'' = None \<longrightarrow>
              getToken st' = Some T \<and> without_token P = P)"
proof -
  let ?v = "case map_of P ''accessToken'' of None \<Rightarrow> JStr T | Some w \<Rightarrow> w"
  let ?text = "JSON_stringify p (JObj (without_token P))"
  let ?st' = "(if truthy (Some ?v) then st(TOKEN_KEY \<mapsto> js_String p (Some ?v)) else st)
                (PROFILE_KEY \<mapsto> ?text)"
  have rest: "without_token ((''accessToken'', ?v) # without_token P) = without_token P"
    using without_token_idem [of P] by (simp add: without_token_def)
  have saved: "saveAuth p (auth_data T (Some (JObj P))) st = Inr ?st'"
    unfolding auth_data_fields [OF assms(2)]
    by (simp add: saveAuth_object rest)
  have profile: "getProfile p ?st' = Inr (JObj (without_token P))"
    using assms(3,4) by (simp add: getProfile_def)
  have token: "getToken ?st' = Some T \<and> without_token P = P"
    if "own_prop (JObj P) ''accessToken'' = None"
    using that assms(1) keys_differ by (simp add: getToken_def without_token_absent)
  then have token': "own_prop (JObj P) ''accessToken'' = None \<longrightarrow>
      getToken ?st' = Some T \<and> without_token P = P"
    by blast
  have none: "own_prop (JObj (without_token P)) ''accessToken'' = None"
    by (simp add: without_token_no_token)
  show ?thesis
  proof (intro exI conjI)
    show "saveAuth p (auth_data T (Some (JObj P))) st = Inr ?st'" by (rule saved)
    show "getProfile p ?st' = Inr (JObj (without_token P))" by (rule profile)
    show "own_prop (JObj (without_token P)) ''accessToken'' = None" by (rule none)
    show "own_prop (JObj P) ''accessToken'' = None \<longrightarrow>
      getToken ?st' = Some T \<and> without_token P = P" by (rule token')
  qed
qed

theorem saveAuth_roundtrip_witness:
  "''tok-ann'' \<noteq> [] \<and>
   distinct (map fst [(''name'', JStr ''ann''), (''credits'', JNum 1000)]) \<and>
   own_prop (JObj [(''name'', JStr ''ann''), (''credits'', JNum 1000)]) ''accessToken'' = None \<and>
   (\<exists>st'. saveAuth sample_platform
            (auth_data ''tok-ann'' (Some (JObj [(''name'', JStr ''ann''), (''credits'', JNum 1000)])))
            Map.empty = Inr st' \<and>
          getToken st' = Some ''tok-ann'' \<and>
          getProfile sample_platform st' = Inr sample_profile) \<and>
   distinct (map fst [(''accessToken'', JStr ''embedded''), (''name'', JStr ''ann''),
                      (''credits'', JNum 1000)]) \<and>
   (\<exists>st'. saveAuth sample_platform
            (auth_data ''tok-ann''
               (Some (JObj [(''accessToken'', JStr ''embedded''), (''name'', JStr ''ann''),
                            (''credits'', JNum 1000)])))
            Map.empty = Inr st' \<and>
          getProfile sample_platform st' = Inr sample_profile \<and>
          own_prop sample_profile ''accessToken'' = None)"
proof -
  let ?P = "[(''name'', JStr ''ann''), (''credits'', JNum 1000)]"
  let ?Q = "[(''accessToken'', JStr ''embedded''), (''name'', JStr ''ann''), (''credits'', JNum 1000)]"
  have wP: "without_token ?P = ?P" and wQ: "without_token ?Q = ?P"
    by (simp_all add: without_token_def)
  have sp: "sample_profile = JObj ?P" by (simp add: sample_profile_def)
  have a: "''tok-ann'' \<noteq> []" by simp
  have dP: "distinct (map fst ?P)" and dQ: "distinct (map fst ?Q)" by simp_all
  have none: "own_prop (JObj ?P) ''accessToken'' = None" by simp
  have nonempty: "JSON_stringify sample_platform (JObj ?P) \<noteq> []"
    by (simp add: sample_platform_def sample_stringify_def sample_profile_text_def
        sample_profile_def)
  have parsed: "JSON_parse sample_platform (JSON_stringify sample_platform (JObj ?P)) =
      Inr (JObj ?P)"
    by (simp add: sample_platform_def sample_stringify_def sample_parse_def sample_profile_def)
  obtain st1 where st1:
    "saveAuth sample_platform (auth_data ''tok-ann'' (Some (JObj ?P))) Map.empty = Inr st1"
    "getProfile sample_platform st1 = Inr (JObj ?P)"
    "own_prop (JObj ?P) ''accessToken'' = None \<longrightarrow> getToken st1 = Some ''tok-ann'' \<and> ?P = ?P"
    using saveAuth_roundtrip [where T = "''tok-ann''" and P = ?P and p = sample_platform
        and st = Map.empty, unfolded wP, OF a dP nonempty parsed]
    by blast
  obtain st2 where st2:
    "saveAuth sample_platform (auth_data ''tok-ann'' (Some (JObj ?Q))) Map.empty = Inr st2"
    "getProfile sample_platform st2 = Inr (JObj ?P)"
    "own_prop (JObj ?P) ''accessToken'' = None"
    using saveAuth_roundtrip [where T = "''tok-ann''" and P = ?Q and p = sample_platform
        and st = Map.empty, unfolded wQ, OF a dQ nonempty parsed]
    by blast
  have tok: "getToken st1 = Some ''tok-ann''" using st1(3) none by blast
  have first: "\<exists>st'. saveAuth sample_platform (auth_data ''tok-ann'' (Some (JObj ?P))) Map.empty = Inr st' \<and>
      getToken st' = Some ''tok-ann'' \<and> getProfile sample_platform st' = Inr sample_profile"
    unfolding sp using st1(1,2) tok by blast
  have second: "\<exists>st'. saveAuth sample_platform (auth_data ''tok-ann'' (Some (JObj ?Q))) Map.empty = Inr st' \<and>
      getProfile sample_platform st' = Inr sample_profile \<and>
      own_prop sample_profile ''accessToken'' = None"
    unfolding sp using st2 by blast
  show ?thesis
    using a dP dQ none first second by (intro conjI)
qed

text \<open>
  The claim as it was written fails for a profile that carries an \<open>accessToken\<close> of
  its own: in \<open>{ accessToken: T, ...P }\<close> the field of \<open>P\<close> comes last and takes the
  place of \<open>T\<close>, so that the token read back is the embedded one.
\<close>

theorem saveAuth_roundtrip_counterexample:
  "saveAuth sample_platform
     (auth_data ''tok-ann''
        (Some (JObj [(''accessToken'', JStr ''embedded''), (''name'', JStr ''ann''),
                     (''credits'', JNum 1000)])))
     Map.empty =
     Inr [TOKEN_KEY \<mapsto> ''embedded'', PROFILE_KEY \<mapsto> sample_profile_text] \<and>
   getToken [TOKEN_KEY \<mapsto> ''embedded'', PROFILE_KEY \<mapsto> sample_profile_text] = Some ''embedded'' \<and>
   getProfile sample_platform [TOKEN_KEY \<mapsto> ''embedded'', PROFILE_KEY \<mapsto> sample_profile_text] =
     Inr sample_profile"
proof -
  let ?Q = "[(''accessToken'', JStr ''embedded''), (''name'', JStr ''ann''), (''credits'', JNum 1000)]"
  have data: "auth_data ''tok-ann'' (Some (JObj ?Q)) =
      Some (JObj [(''accessToken'', JStr ''embedded''), (''name'', JStr ''ann''),
                  (''credits'', JNum 1000)])"
    by (simp add: auth_data_def object_assign_def)
  have saved: "saveAuth sample_platform (auth_data ''tok-ann'' (Some (JObj ?Q))) Map.empty =
      Inr [TOKEN_KEY \<mapsto> ''embedded'', PROFILE_KEY \<mapsto> sample_profile_text]"
    unfolding data
    by (simp add: saveAuth_object without_token_def sample_platform_def sample_stringify_def
        sample_profile_def)
  have token: "getToken [TOKEN_KEY \<mapsto> ''embedded'', PROFILE_KEY \<mapsto> sample_profile_text] =
      Some ''embedded''"
    using keys_differ by (simp add: getToken_def)
  have profile: "getProfile sample_platform
      [TOKEN_KEY \<mapsto> ''embedded'', PROFILE_KEY \<mapsto> sample_profile_text] = Inr sample_profile"
    by (simp add: getProfile_def sample_platform_def sample_parse_def sample_profile_text_def)
  from saved token profile show ?thesis by blast
qed

text \<open>
  The same round trip for a session object that carries the token itself, as
  \<open>loginUser\<close> passes the \<open>data\<close> of the response: the token read back is its
  \<open>accessToken\<close> and the profile read back is made of its other fields.
\<close>

lemma saveAuth_session_object:
  assumes "own_prop (JObj D) ''accessToken'' = Some (JStr T)" and "T \<noteq> []"
    and "JSON_stringify p (JObj (without_token D)) \<noteq> []"
    and "JSON_parse p (JSON_stringify p (JObj (without_token D))) = Inr (JObj (without_token D))"
  shows "\<exists>st'. saveAuth p (Some (JObj D)) st = Inr st' \<and>
           getToken st' = Some T \<and>
           getProfile p st' = Inr (JObj (without_token D))"
  using assms keys_differ by (simp add: saveAuth_object getToken_def getProfile_def)

text \<open>
  Claim C9. When the argument of \<open>saveAuth\<close> has no truthy \<open>accessToken\<close>,
  the stored profile is overwritten with the fields of the argument, while the stored
  token stays exactly as it was, neither updated nor removed; nothing else in the store
  changes. The worked example keeps the token of one user beside the profile of another.
\<close>

theorem saveAuth_without_token:
  assumes "data \<noteq> JNull" and "\<not> truthy (own_prop data ''accessToken'')"
  shows "\<exists>st'. saveAuth p (Some data) st = Inr st' \<and>
           getToken st' = getToken st \<and>
           st' PROFILE_KEY = Some (JSON_stringify p (JObj (without_token (own_props data)))) \<and>
           (\<forall>k. k \<noteq> PROFILE_KEY \<longrightarrow> st' k = st k)"
  using assms keys_differ by (simp add: saveAuth_object getToken_def)

theorem saveAuth_without_token_witness:
  "JObj [(''accessToken'', JStr ''''), (''name'', JStr ''bob'')] \<noteq> JNull \<and>
   \<not> truthy (own_prop (JObj [(''accessToken'', JStr ''''), (''name'', JStr ''bob'')]) ''accessToken'') \<and>
   (\<exists>st'. saveAuth sample_platform
            (Some (JObj [(''accessToken'', JStr ''''), (''name'', JStr ''bob'')])) stale_store = Inr st' \<and>
          getToken st' = Some ''tok-ann'' \<and>
          getProfile sample_platform st' = Inr (JObj [(''name'', JStr ''bob'')]))"
proof -
  let ?d = "JObj [(''accessToken'', JStr ''''), (''name'', JStr ''bob'')]"
  have a: "?d \<noteq> JNull" by simp
  have b: "\<not> truthy (own_prop ?d ''accessToken'')" by simp
  from saveAuth_without_token [OF a b, of sample_platform stale_store]
  obtain st' where st': "saveAuth sample_platform (Some ?d) stale_store = Inr st'"
    "getToken st' = getToken stale_store"
    "st' PROFILE_KEY = Some (JSON_stringify sample_platform (JObj (without_token (own_props ?d))))"
    by blast
  have "getToken st' = Some ''tok-ann''"
    using st'(2) keys_differ by (simp add: stale_store_def getToken_def)
  moreover have "getProfile sample_platform st' = Inr (JObj [(''name'', JStr ''bob'')])"
    using st'(3)
    by (simp add: getProfile_def without_token_def sample_platform_def sample_stringify_def
        sample_parse_def sample_profile_def sample_profile_text_def)
  ultimately show ?thesis using st'(1) a b by blast
qed

text \<open>
  Claim C10. \<open>getProfile\<close> never throws: it returns \<open>null\<close> when nothing is
  stored, and also when the stored text is not valid JSON, so that a corrupted profile
  reads like an absent one.
\<close>

theorem getProfile_never_throws:
  "(\<exists>v. getProfile p st = Inr v) \<and>
   (st PROFILE_KEY = None \<longrightarrow> getProfile p st = Inr JNull) \<and>
   (\<forall>raw e. st PROFILE_KEY = Some raw \<and> JSON_parse p raw = Inl e \<longrightarrow> getProfile p st = Inr JNull)"
  by (auto simp: getProfile_def split: option.splits sum.splits)

theorem getProfile_never_throws_witness:
  "[PROFILE_KEY \<mapsto> ''{oops''] PROFILE_KEY = Some ''{oops'' \<and>
   JSON_parse sample_platform ''{oops'' = Inl SyntaxError \<and>
   getProfile sample_platform [PROFILE_KEY \<mapsto> ''{oops''] = Inr JNull \<and>
   Map.empty PROFILE_KEY = (None :: string option) \<and>
   getProfile sample_platform Map.empty = Inr JNull"
proof -
  have a: "[PROFILE_KEY \<mapsto> ''{oops''] PROFILE_KEY = Some ''{oops''" by simp
  have b: "JSON_parse sample_platform ''{oops'' = Inl SyntaxError"
    by (simp add: sample_platform_def sample_parse_def sample_profile_text_def)
  have c: "Map.empty PROFILE_KEY = (None :: string option)" by simp
  from getProfile_never_throws [of sample_platform "[PROFILE_KEY \<mapsto> ''{oops'']"] a b
  have d: "getProfile sample_platform [PROFILE_KEY \<mapsto> ''{oops''] = Inr JNull" by blast
  from getProfile_never_throws [of sample_platform Map.empty] c
  have e: "getProfile sample_platform Map.empty = Inr JNull" by blast
  from a b c d e show ?thesis by blast
qed

text \<open>
  A page that requires a session then treats the viewer as logged out: the edit page
  redirects to the login page without sending anything.
\<close>

lemma corrupted_profile_logged_out:
  assumes "storage st PROFILE_KEY = Some raw" and "JSON_parse p raw = Inl e"
  shows "edit_load p st = emit (Navigate ''login.html'') st"
  using assms by (simp add: edit_load_def getProfile_def)

subsection \<open>Errors of the gateway functions\<close>

lemma get_prop_non_null: "v \<noteq> JNull \<Longrightarrow> get_prop (Some v) k = Inr (opt_prop (Some v) k)"
  by (cases v) simp_all

lemma opt_prop_null: "opt_prop (Some JNull) k = None"
  by simp

lemma body_first_error_null: "body_first_error (Some JNull) = None"
  by (simp add: body_first_error_def json_or_empty_def first_error_message_def)

lemma dashboard_error_message_cases:
  assumes "body \<noteq> Some JNull"
  shows "dashboard_error_message p status body =
     Error (if truthy (body_first_error body) then js_String p (body_first_error body)
            else ''API error: '' @ dec status)"
proof -
  have "json_or_empty body \<noteq> JNull"
    using assms by (cases body) (simp_all add: json_or_empty_def)
  then show ?thesis
    by (simp add: dashboard_error_message_def get_prop_non_null body_first_error_def js_or_def)
qed

lemma detail_error_message_cases:
  "detail_error_message p what status (json_or_empty body) =
     Error (if truthy (body_first_error body) then js_String p (body_first_error body)
            else if truthy (body_message body) then js_String p (body_message body)
            else ''Failed to '' @ what @ '' ('' @ dec status @ '')'')"
  by (simp add: detail_error_message_def body_first_error_def body_message_def js_or_def)

lemma edit_error_message_cases:
  "edit_error_message p what status (json_or_empty body) =
     Error (if truthy (body_first_error body) then js_String p (body_first_error body)
            else ''Failed to '' @ what @ '' ('' @ dec status @ '')'')"
  by (simp add: edit_error_message_def body_first_error_def js_or_def)

lemma dashboard_placeBid_failure:
  assumes "\<forall>req. fetch p req = Response status body" and "\<not> is_ok status"
    and "truthy (str_val (getToken st))"
  shows "snd (dashboard_placeBid p st lid amount) = Inl (dashboard_error_message p status body)"
  using assms by (simp add: dashboard_placeBid_def Let_def)

lemma dashboard_fetchListingById_failure:
  assumes "\<forall>req. fetch p req = Response status body" and "\<not> is_ok status"
  shows "snd (dashboard_fetchListingById p st lid) = Inl (dashboard_error_message p status body)"
  using assms by (simp add: dashboard_fetchListingById_def Let_def)

lemma detail_fetchListing_failure:
  assumes "\<forall>req. fetch p req = Response status body" and "\<not> is_ok status"
  shows "snd (detail_fetchListing p st lid) =
     Inl (detail_error_message p ''load listing'' status (json_or_empty body))"
  using assms by (simp add: detail_fetchListing_def Let_def)

lemma detail_placeBid_failure:
  assumes "\<forall>req. fetch p req = Response status body" and "\<not> is_ok status"
    and "truthy (str_val (getToken st))" and "getProfile p st = Inr profile"
    and "truthy (Some profile)"
  shows "snd (detail_placeBid p st lid amount) =
     Inl (detail_error_message p ''place bid'' status (json_or_empty body))"
  using assms by (simp add: detail_placeBid_def Let_def)

lemma edit_fetchListing_failure:
  assumes "\<forall>req. fetch p req = Response status body" and "\<not> is_ok status"
  shows "snd (edit_fetchListing p token lid) =
     Inl (edit_error_message p ''load listing'' status (json_or_empty body))"
  using assms by (simp add: edit_fetchListing_def Let_def)

lemma updateListing_failure:
  assumes "\<forall>req. fetch p req = Response status body" and "\<not> is_ok status"
  shows "snd (updateListing p token lid payload) =
     Inl (edit_error_message p ''update listing'' status (json_or_empty body))"
  using assms by (simp add: updateListing_def Let_def)

lemma deleteListing_failure:
  assumes "\<forall>req. fetch p req = Response status body" and "\<not> is_ok status"
  shows "snd (deleteListing p token lid) =
     Inl (edit_error_message p ''delete listing'' status (json_or_empty body))"
  using assms by (simp add: deleteListing_def Let_def)

lemma get_prop_own: "v \<noteq> JNull \<Longrightarrow> get_prop (Some v) k = Inr (own_prop v k)"
  by (cases v) simp_all

lemma body_first_error_None: "body_first_error None = None"
  by (simp add: body_first_error_def json_or_empty_def first_error_message_def)

lemma handleCreateListing_try_failure:
  assumes "\<forall>req. fetch p req = Response status body" and "\<not> is_ok status"
  shows "snd (handleCreateListing_try p token payload) =
     Inl (detail_error_message p ''create listing'' status (json_or_empty body))"
  using assms by (simp add: handleCreateListing_try_def detail_error_message_def Let_def)

lemma updateProfileOnServer_failure:
  assumes "\<forall>req. fetch p req = Response status body" and "\<not> is_ok status"
    and "body \<noteq> None"
  shows "snd (updateProfileOnServer p token name payload) =
     Inl (edit_error_message p ''update profile'' status (json_or_empty body))"
  using assms
  by (auto simp: updateProfileOnServer_def edit_error_message_def json_or_empty_def Let_def)

lemma loadDashboardListings_try_failure:
  assumes "\<forall>req. fetch p req = Response status body" and "\<not> is_ok status"
  shows "snd (loadDashboardListings_try p) = Inl (Error (''API error: '' @ dec status))"
  using assms by (simp add: loadDashboardListings_try_def Let_def)

lemma loadHomeListings_try_failure:
  assumes "\<forall>req. fetch p req = Response status body" and "\<not> is_ok status"
  shows "snd (loadHomeListings_try p) = Inl (Error (''API error: '' @ dec status))"
  using assms by (simp add: loadHomeListings_try_def Let_def)

lemma error_messages_listed:
  "JNull \<notin> set errs \<Longrightarrow>
   error_messages errs = Inr (map (\<lambda>err. own_prop err ''message'') errs)"
proof (induction errs)
  case Nil
  show ?case by simp
next
  case (Cons err errs)
  then have "err \<noteq> JNull" and "JNull \<notin> set errs" by auto
  then show ?case using Cons.IH by (simp add: get_prop_own)
qed

lemma errorMessage_cases:
  assumes "errors_listed (Some result)"
  shows "errorMessage p result =
     Error (if body_all_errors p (Some result) \<noteq> [] then body_all_errors p (Some result)
            else if truthy (body_message (Some result))
            then js_String p (body_message (Some result))
            else ''Something went wrong.'')"
proof (cases "opt_prop (Some result) ''errors''")
  case None
  then show ?thesis
    by (simp add: errorMessage_def joined_errors_def body_all_errors_def body_error_list_def
        body_message_def json_or_empty_def js_or_def)
next
  case (Some v)
  show ?thesis
  proof (cases v)
    case JNull
    then show ?thesis
      using Some
      by (simp add: errorMessage_def joined_errors_def body_all_errors_def body_error_list_def
          body_message_def json_or_empty_def js_or_def)
  next
    case (JArr errs)
    then have "JNull \<notin> set errs"
      using assms Some by (simp add: errors_listed_def)
    then show ?thesis
      using Some JArr
      by (simp add: errorMessage_def joined_errors_def body_all_errors_def body_error_list_def
          body_message_def json_or_empty_def js_or_def error_messages_listed comp_def)
  qed (use assms Some in \<open>simp_all add: errors_listed_def\<close>)
qed

lemma loginUser_try_failure:
  assumes "\<forall>req. fetch p req = Response status body" and "\<not> is_ok status"
    and "errors_listed body"
  shows "snd (loginUser_try p credentials st) = Inl (errorMessage p (the body))"
  using assms by (auto simp: loginUser_try_def errors_listed_def Let_def)

lemma registerUser_try_failure:
  assumes "\<forall>req. fetch p req = Response status body" and "\<not> is_ok status"
    and "errors_listed body"
  shows "snd (registerUser_try p userDetails) = Inl (errorMessage p (the body))"
  using assms by (auto simp: registerUser_try_def errors_listed_def Let_def)

lemma detail_refreshProfileCredits_failure:
  assumes "\<forall>req. fetch p req = Response status body" and "\<not> is_ok status"
    and "truthy (str_val (getToken (storage dp)))" and "getProfile p (storage dp) = Inr profile"
  shows "detail_refreshProfileCredits p dp =
     (if truthy (opt_prop (Some profile) ''name'')
      then emit (Fetch (profile_request p (the (getToken (storage dp)))
                          (opt_prop (Some profile) ''name''))) dp
      else dp)"
  using assms by (simp add: detail_refreshProfileCredits_def Let_def)

lemma dashboard_refreshProfileCredits_failure:
  assumes "\<forall>req. fetch p req = Response status body" and "\<not> is_ok status"
    and "truthy (str_val (getToken (storage cp)))" and "getProfile p (storage cp) = Inr profile"
  shows "dashboard_refreshProfileCredits p cp =
     (if truthy (opt_prop (Some profile) ''name'')
      then emit (Fetch (profile_request p (the (getToken (storage cp)))
                          (opt_prop (Some profile) ''name''))) cp
      else cp)"
  using assms
  by (simp add: dashboard_refreshProfileCredits_def profile_request_def PROFILE_BASE_def Let_def)

lemma fetchProfileWithListings_failure:
  assumes "map (fetch p) (profile_requests p token name) =
      [Response s1 b1, Response s2 b2, Response s3 b3, Response s4 b4]"
  shows "\<not> is_ok s1 \<Longrightarrow>
      snd (fetchProfileWithListings p token name) =
        Inl (Error (''Failed to load profile: '' @ dec s1))"
    and "is_ok s1 \<Longrightarrow> \<not> is_ok s2 \<Longrightarrow>
      snd (fetchProfileWithListings p token name) =
        Inl (Error (''Failed to load listings: '' @ dec s2))"
    and "is_ok s1 \<Longrightarrow> is_ok s2 \<Longrightarrow> \<not> is_ok s3 \<Longrightarrow>
      snd (fetchProfileWithListings p token name) =
        Inl (Error (''Failed to load bids: '' @ dec s3))"
    and "is_ok s1 \<Longrightarrow> is_ok s2 \<Longrightarrow> is_ok s3 \<Longrightarrow> \<not> is_ok s4 \<Longrightarrow>
      snd (fetchProfileWithListings p token name) =
        Inl (Error (''Failed to load wins: '' @ dec s4))"
  using assms by (simp_all add: fetchProfileWithListings_def)

text \<open>
  Claim C6, as the code has it. No function that calls the service has the chain of the
  claim; on a response outside 200 to 299 each raises what follows. (\<open>placeBid\<close> sends
  its request only with a session in the store: a token on the dashboard, a token and a
  profile on the detail page; so does \<open>refreshProfileCredits\<close>.)

  \<^item> The first structured message of the body (\<open>errors[0].message\<close>), whenever that is
    truthy: \<open>placeBid\<close> and \<open>fetchListingById\<close> of the dashboard,
    \<open>placeBid\<close> and \<open>fetchListing\<close> of the detail page, \<open>fetchListing\<close>,
    \<open>updateListing\<close> and \<open>deleteListing\<close> of the edit page,
    \<open>handleCreateListing\<close> and \<open>updateProfileOnServer\<close>.
  \<^item> Otherwise the functions of the detail page and \<open>handleCreateListing\<close> take the
    \<open>message\<close> field of the body when it is truthy, and else
    \<open>Failed to place bid (status)\<close>, \<open>Failed to load listing (status)\<close> or
    \<open>Failed to create listing (status)\<close>; those of the dashboard take
    \<open>API error: status\<close>, for a body other than the JSON \<open>null\<close>; those of the edit
    page take \<open>Failed to load listing (status)\<close>,
    \<open>Failed to update listing (status)\<close> or \<open>Failed to delete listing (status)\<close>;
    \<open>updateProfileOnServer\<close> takes \<open>Failed to update profile (status)\<close>, for a body
    that is JSON.
  \<^item> \<open>loadDashboardListings\<close> and \<open>loadHomeListings\<close> raise
    \<open>API error: status\<close> whatever the body holds.
  \<^item> \<open>loginUser\<close> and \<open>registerUser\<close>, for a body with the envelope of the
    service, raise all the structured messages joined by a comma when that text is not
    empty, else the \<open>message\<close> field when it is truthy, else
    \<open>Something went wrong.\<close>
  \<^item> \<open>refreshProfileCredits\<close>, on the detail page and on the dashboard, raises
    nothing: the page has sent its one request and is otherwise as before.
  \<^item> \<open>fetchProfileWithListings\<close>, once its four requests are answered, raises
    \<open>Failed to load profile: status\<close>, \<open>Failed to load listings: status\<close>,
    \<open>Failed to load bids: status\<close> or \<open>Failed to load wins: status\<close> for the
    first of the four responses, in this order, that is not ok, whatever the bodies hold.
\<close>

theorem gateway_error_message:
  "((\<forall>req. fetch p req = Response status body) \<and> \<not> is_ok status \<longrightarrow>
    (truthy (body_first_error body) \<longrightarrow>
       snd (dashboard_fetchListingById p st lid) = Inl (Error (js_String p (body_first_error body))) \<and>
       snd (detail_fetchListing p st lid) = Inl (Error (js_String p (body_first_error body))) \<and>
       snd (edit_fetchListing p token eid) = Inl (Error (js_String p (body_first_error body))) \<and>
       snd (updateListing p token eid payload) = Inl (Error (js_String p (body_first_error body))) \<and>
       snd (deleteListing p token eid) = Inl (Error (js_String p (body_first_error body))) \<and>
       snd (handleCreateListing_try p token payload) =
         Inl (Error (js_String p (body_first_error body))) \<and>
       snd (updateProfileOnServer p token name payload) =
         Inl (Error (js_String p (body_first_error body))) \<and>
       (truthy (str_val (getToken st)) \<longrightarrow>
          snd (dashboard_placeBid p st lid amount) =
            Inl (Error (js_String p (body_first_error body)))) \<and>
       (truthy (str_val (getToken st)) \<and> getProfile p st = Inr profile \<and> truthy (Some profile) \<longrightarrow>
          snd (detail_placeBid p st lid amount) =
            Inl (Error (js_String p (body_first_error body))))) \<and>
    (\<not> truthy (body_first_error body) \<and> truthy (body_message body) \<longrightarrow>
       snd (detail_fetchListing p st lid) = Inl (Error (js_String p (body_message body))) \<and>
       snd (handleCreateListing_try p token payload) =
         Inl (Error (js_String p (body_message body))) \<and>
       (truthy (str_val (getToken st)) \<and> getProfile p st = Inr profile \<and> truthy (Some profile) \<longrightarrow>
          snd (detail_placeBid p st lid amount) = Inl (Error (js_String p (body_message body))))) \<and>
    (\<not> truthy (body_first_error body) \<and> \<not> truthy (body_message body) \<longrightarrow>
       snd (detail_fetchListing p st lid) =
         Inl (Error (''Failed to load listing ('' @ dec status @ '')'')) \<and>
       snd (handleCreateListing_try p token payload) =
         Inl (Error (''Failed to create listing ('' @ dec status @ '')'')) \<and>
       (truthy (str_val (getToken st)) \<and> getProfile p st = Inr profile \<and> truthy (Some profile) \<longrightarrow>
          snd (detail_placeBid p st lid amount) =
            Inl (Error (''Failed to place bid ('' @ dec status @ '')'')))) \<and>
    (\<not> truthy (body_first_error body) \<and> body \<noteq> Some JNull \<longrightarrow>
       snd (dashboard_fetchListingById p st lid) = Inl (Error (''API error: '' @ dec status)) \<and>
       (truthy (str_val (getToken st)) \<longrightarrow>
          snd (dashboard_placeBid p st lid amount) = Inl (Error (''API error: '' @ dec status)))) \<and>
    (\<not> truthy (body_first_error body) \<longrightarrow>
       snd (edit_fetchListing p token eid) =
         Inl (Error (''Failed to load listing ('' @ dec status @ '')'')) \<and>
       snd (updateListing p token eid payload) =
         Inl (Error (''Failed to update listing ('' @ dec status @ '')'')) \<and>
       snd (deleteListing p token eid) =
         Inl (Error (''Failed to delete listing ('' @ dec status @ '')''))) \<and>
    (\<not> truthy (body_first_error body) \<and> body \<noteq> None \<longrightarrow>
       snd (updateProfileOnServer p token name payload) =
         Inl (Error (''Failed to update profile ('' @ dec status @ '')''))) \<and>
    snd (loadDashboardListings_try p) = Inl (Error (''API error: '' @ dec status)) \<and>
    snd (loadHomeListings_try p) = Inl (Error (''API error: '' @ dec status)) \<and>
    (errors_listed body \<and> body_all_errors p body \<noteq> [] \<longrightarrow>
       snd (loginUser_try p credentials st) = Inl (Error (body_all_errors p body)) \<and>
       snd (registerUser_try p userDetails) = Inl (Error (body_all_errors p body))) \<and>
    (errors_listed body \<and> body_all_errors p body = [] \<and> truthy (body_message body) \<longrightarrow>
       snd (loginUser_try p credentials st) = Inl (Error (js_String p (body_message body))) \<and>
       snd (registerUser_try p userDetails) = Inl (Error (js_String p (body_message body)))) \<and>
    (errors_listed body \<and> body_all_errors p body = [] \<and> \<not> truthy (body_message body) \<longrightarrow>
       snd (loginUser_try p credentials st) = Inl (Error ''Something went wrong.'') \<and>
       snd (registerUser_try p userDetails) = Inl (Error ''Something went wrong.'')) \<and>
    (truthy (str_val (getToken (storage dp))) \<and> getProfile p (storage dp) = Inr profile \<longrightarrow>
       detail_refreshProfileCredits p dp =
         (if truthy (opt_prop (Some profile) ''name'')
          then emit (Fetch (profile_request p (the (getToken (storage dp)))
                              (opt_prop (Some profile) ''name''))) dp
          else dp)) \<and>
    (truthy (str_val (getToken (storage cp))) \<and> getProfile p (storage cp) = Inr profile \<longrightarrow>
       dashboard_refreshProfileCredits p cp =
         (if truthy (opt_prop (Some profile) ''name'')
          then emit (Fetch (profile_request p (the (getToken (storage cp)))
                              (opt_prop (Some profile) ''name''))) cp
          else cp))) \<and>
   (map (fetch p) (profile_requests p token name) =
      [Response s1 b1, Response s2 b2, Response s3 b3, Response s4 b4] \<longrightarrow>
    (\<not> is_ok s1 \<longrightarrow>
       snd (fetchProfileWithListings p token name) =
         Inl (Error (''Failed to load profile: '' @ dec s1))) \<and>
    (is_ok s1 \<and> \<not> is_ok s2 \<longrightarrow>
       snd (fetchProfileWithListings p token name) =
         Inl (Error (''Failed to load listings: '' @ dec s2))) \<and>
    (is_ok s1 \<and> is_ok s2 \<and> \<not> is_ok s3 \<longrightarrow>
       snd (fetchProfileWithListings p token name) =
         Inl (Error (''Failed to load bids: '' @ dec s3))) \<and>
    (is_ok s1 \<and> is_ok s2 \<and> is_ok s3 \<and> \<not> is_ok s4 \<longrightarrow>
       snd (fetchProfileWithListings p token name) =
         Inl (Error (''Failed to load wins: '' @ dec s4))))"
  (is "(?A \<longrightarrow> ?G) \<and> (?B \<longrightarrow> ?D)")
proof (rule conjI)
  show "?A \<longrightarrow> ?G"
  proof
    assume ?A
    then have answer: "\<forall>req. fetch p req = Response status body" and failed: "\<not> is_ok status"
      by blast+
    have non_null: "body \<noteq> Some JNull" and some: "body \<noteq> None"
      if "truthy (body_first_error body)"
      using that by (cases body; auto simp: body_first_error_null body_first_error_None)+
    have dash: "snd (dashboard_fetchListingById p st lid) =
          Inl (Error (if truthy (body_first_error body) then js_String p (body_first_error body)
                      else ''API error: '' @ dec status))"
      if "body \<noteq> Some JNull"
      using answer failed that
      by (simp add: dashboard_fetchListingById_failure dashboard_error_message_cases)
    have dash_bid: "snd (dashboard_placeBid p st lid amount) =
          Inl (Error (if truthy (body_first_error body) then js_String p (body_first_error body)
                      else ''API error: '' @ dec status))"
      if "body \<noteq> Some JNull" and "truthy (str_val (getToken st))"
      using answer failed that
      by (simp add: dashboard_placeBid_failure dashboard_error_message_cases)
    have detail: "snd (detail_fetchListing p st lid) =
          Inl (detail_error_message p ''load listing'' status (json_or_empty body)) \<and>
        snd (handleCreateListing_try p token payload) =
          Inl (detail_error_message p ''create listing'' status (json_or_empty body))"
      using answer failed
      by (simp add: detail_fetchListing_failure handleCreateListing_try_failure)
    have detail_bid: "snd (detail_placeBid p st lid amount) =
          Inl (detail_error_message p ''place bid'' status (json_or_empty body))"
      if "truthy (str_val (getToken st))" and "getProfile p st = Inr profile"
        and "truthy (Some profile)"
      using answer failed that by (simp add: detail_placeBid_failure)
    have edit: "snd (edit_fetchListing p token eid) =
          Inl (edit_error_message p ''load listing'' status (json_or_empty body)) \<and>
        snd (updateListing p token eid payload) =
          Inl (edit_error_message p ''update listing'' status (json_or_empty body)) \<and>
        snd (deleteListing p token eid) =
          Inl (edit_error_message p ''delete listing'' status (json_or_empty body))"
      using answer failed
      by (simp add: edit_fetchListing_failure updateListing_failure deleteListing_failure)
    have update: "body \<noteq> None \<Longrightarrow>
        snd (updateProfileOnServer p token name payload) =
          Inl (edit_error_message p ''update profile'' status (json_or_empty body))"
      using answer failed by (simp add: updateProfileOnServer_failure)
    have grids: "snd (loadDashboardListings_try p) = Inl (Error (''API error: '' @ dec status))"
      "snd (loadHomeListings_try p) = Inl (Error (''API error: '' @ dec status))"
      using answer failed
      by (simp_all add: loadDashboardListings_try_failure loadHomeListings_try_failure)
    have auth: "errors_listed body \<Longrightarrow>
        snd (loginUser_try p credentials st) =
          Inl (Error (if body_all_errors p body \<noteq> [] then body_all_errors p body
                      else if truthy (body_message body) then js_String p (body_message body)
                      else ''Something went wrong.'')) \<and>
        snd (registerUser_try p userDetails) =
          Inl (Error (if body_all_errors p body \<noteq> [] then body_all_errors p body
                      else if truthy (body_message body) then js_String p (body_message body)
                      else ''Something went wrong.''))"
    proof -
      assume listed: "errors_listed body"
      then obtain result where body: "body = Some result"
        by (auto simp: errors_listed_def)
      show ?thesis
        using loginUser_try_failure [OF answer failed listed, of credentials st]
          registerUser_try_failure [OF answer failed listed, of userDetails]
          errorMessage_cases [of result p] listed
        by (simp add: body)
    qed
    have refresh: "detail_refreshProfileCredits p dp =
          (if truthy (opt_prop (Some profile) ''name'')
           then emit (Fetch (profile_request p (the (getToken (storage dp)))
                               (opt_prop (Some profile) ''name''))) dp
           else dp)"
      if "truthy (str_val (getToken (storage dp)))" and "getProfile p (storage dp) = Inr profile"
      using detail_refreshProfileCredits_failure [OF answer failed that] .
    have refresh_card: "dashboard_refreshProfileCredits p cp =
          (if truthy (opt_prop (Some profile) ''name'')
           then emit (Fetch (profile_request p (the (getToken (storage cp)))
                               (opt_prop (Some profile) ''name''))) cp
           else cp)"
      if "truthy (str_val (getToken (storage cp)))" and "getProfile p (storage cp) = Inr profile"
      using dashboard_refreshProfileCredits_failure [OF answer failed that] .
    have first: "truthy (body_first_error body) \<longrightarrow>
       snd (dashboard_fetchListingById p st lid) = Inl (Error (js_String p (body_first_error body))) \<and>
       snd (detail_fetchListing p st lid) = Inl (Error (js_String p (body_first_error body))) \<and>
       snd (edit_fetchListing p token eid) = Inl (Error (js_String p (body_first_error body))) \<and>
       snd (updateListing p token eid payload) = Inl (Error (js_String p (body_first_error body))) \<and>
       snd (deleteListing p token eid) = Inl (Error (js_String p (body_first_error body))) \<and>
       snd (handleCreateListing_try p token payload) =
         Inl (Error (js_String p (body_first_error body))) \<and>
       snd (updateProfileOnServer p token name payload) =
         Inl (Error (js_String p (body_first_error body))) \<and>
       (truthy (str_val (getToken st)) \<longrightarrow>
          snd (dashboard_placeBid p st lid amount) =
            Inl (Error (js_String p (body_first_error body)))) \<and>
       (truthy (str_val (getToken st)) \<and> getProfile p st = Inr profile \<and> truthy (Some profile) \<longrightarrow>
          snd (detail_placeBid p st lid amount) =
            Inl (Error (js_String p (body_first_error body))))"
      using non_null some dash dash_bid detail detail_bid edit update
      by (simp add: detail_error_message_cases edit_error_message_cases)
    have message: "\<not> truthy (body_first_error body) \<and> truthy (body_message body) \<longrightarrow>
       snd (detail_fetchListing p st lid) = Inl (Error (js_String p (body_message body))) \<and>
       snd (handleCreateListing_try p token payload) =
         Inl (Error (js_String p (body_message body))) \<and>
       (truthy (str_val (getToken st)) \<and> getProfile p st = Inr profile \<and> truthy (Some profile) \<longrightarrow>
          snd (detail_placeBid p st lid amount) = Inl (Error (js_String p (body_message body))))"
      using detail detail_bid by (simp add: detail_error_message_cases)
    have fallback: "\<not> truthy (body_first_error body) \<and> \<not> truthy (body_message body) \<longrightarrow>
       snd (detail_fetchListing p st lid) =
         Inl (Error (''Failed to load listing ('' @ dec status @ '')'')) \<and>
       snd (handleCreateListing_try p token payload) =
         Inl (Error (''Failed to create listing ('' @ dec status @ '')'')) \<and>
       (truthy (str_val (getToken st)) \<and> getProfile p st = Inr profile \<and> truthy (Some profile) \<longrightarrow>
          snd (detail_placeBid p st lid amount) =
            Inl (Error (''Failed to place bid ('' @ dec status @ '')'')))"
      using detail detail_bid by (simp add: detail_error_message_cases)
    have api_error: "\<not> truthy (body_first_error body) \<and> body \<noteq> Some JNull \<longrightarrow>
       snd (dashboard_fetchListingById p st lid) = Inl (Error (''API error: '' @ dec status)) \<and>
       (truthy (str_val (getToken st)) \<longrightarrow>
          snd (dashboard_placeBid p st lid amount) = Inl (Error (''API error: '' @ dec status)))"
      using dash dash_bid by simp
    have edit_fallback: "\<not> truthy (body_first_error body) \<longrightarrow>
       snd (edit_fetchListing p token eid) =
         Inl (Error (''Failed to load listing ('' @ dec status @ '')'')) \<and>
       snd (updateListing p token eid payload) =
         Inl (Error (''Failed to update listing ('' @ dec status @ '')'')) \<and>
       snd (deleteListing p token eid) =
         Inl (Error (''Failed to delete listing ('' @ dec status @ '')''))"
      using edit by (simp add: edit_error_message_cases)
    have update_fallback: "\<not> truthy (body_first_error body) \<and> body \<noteq> None \<longrightarrow>
       snd (updateProfileOnServer p token name payload) =
         Inl (Error (''Failed to update profile ('' @ dec status @ '')''))"
      using update by (simp add: edit_error_message_cases)
    have joined: "errors_listed body \<and> body_all_errors p body \<noteq> [] \<longrightarrow>
       snd (loginUser_try p credentials st) = Inl (Error (body_all_errors p body)) \<and>
       snd (registerUser_try p userDetails) = Inl (Error (body_all_errors p body))"
      and auth_message:
      "errors_listed body \<and> body_all_errors p body = [] \<and> truthy (body_message body) \<longrightarrow>
       snd (loginUser_try p credentials st) = Inl (Error (js_String p (body_message body))) \<and>
       snd (registerUser_try p userDetails) = Inl (Error (js_String p (body_message body)))"
      and auth_fallback:
      "errors_listed body \<and> body_all_errors p body = [] \<and> \<not> truthy (body_message body) \<longrightarrow>
       snd (loginUser_try p credentials st) = Inl (Error ''Something went wrong.'') \<and>
       snd (registerUser_try p userDetails) = Inl (Error ''Something went wrong.'')"
      using auth by simp_all
    have quiet: "truthy (str_val (getToken (storage dp))) \<and> getProfile p (storage dp) = Inr profile \<longrightarrow>
       detail_refreshProfileCredits p dp =
         (if truthy (opt_prop (Some profile) ''name'')
          then emit (Fetch (profile_request p (the (getToken (storage dp)))
                              (opt_prop (Some profile) ''name''))) dp
          else dp)"
      and quiet_card:
      "truthy (str_val (getToken (storage cp))) \<and> getProfile p (storage cp) = Inr profile \<longrightarrow>
       dashboard_refreshProfileCredits p cp =
         (if truthy (opt_prop (Some profile) ''name'')
          then emit (Fetch (profile_request p (the (getToken (storage cp)))
                              (opt_prop (Some profile) ''name''))) cp
          else cp)"
      using refresh refresh_card by blast+
    from first message fallback api_error edit_fallback update_fallback grids joined
      auth_message auth_fallback quiet quiet_card
    show ?G by (intro conjI)
  qed
next
  show "?B \<longrightarrow> ?D"
  proof
    assume answered: ?B
    show ?D using fetchProfileWithListings_failure [OF answered] by simp
  qed
qed

lemma sample_session:
  "truthy (str_val (getToken stale_store))"
  "getProfile (answering sample_platform status body) stale_store = Inr sample_profile"
  "truthy (Some sample_profile)"
  by (simp_all add: stale_store_def getToken_def getProfile_def str_val_def TOKEN_KEY_def
      PROFILE_KEY_def answering_def sample_platform_def sample_parse_def sample_profile_def
      sample_profile_text_def)

lemma answering_fetch: "\<forall>req. fetch (answering p status body) req = Response status body"
  by (simp add: answering_def)

lemma answering_js_String: "js_String (answering p status body) (Some (JStr s)) = s"
  by simp

lemma sample_bodies:
  "body_first_error (Some errors_body) = Some (JStr ''Title is required'')"
  "body_first_error (Some message_body) = None"
  "body_message (Some message_body) = Some (JStr ''Bad Request'')"
  "body_first_error None = None"
  "body_message None = None"
  by (simp_all add: body_first_error_def body_message_def json_or_empty_def errors_body_def
      message_body_def first_error_message_def index_of_key_def dec.simps digit_char_def)

lemma sample_statuses:
  "\<not> is_ok 400" "\<not> is_ok 502" "dec 400 = ''400''" "dec 502 = ''502''" "dec 500 = ''500''"
  "dec 404 = ''404''" "\<not> is_ok 500" "\<not> is_ok 404"
  by (simp_all add: is_ok_def dec.simps digit_char_def)

lemma sample_error_lists:
  "errors_listed (Some errors_body)"
  "errors_listed (Some message_body)"
  "errors_listed (Some two_errors_body)"
  "errors_listed (Some (JObj []))"
  "body_all_errors p (Some errors_body) = ''Title is required''"
  "body_all_errors p (Some message_body) = []"
  "body_all_errors p (Some two_errors_body) = ''Invalid email, Password too short''"
  "body_all_errors p (Some (JObj [])) = []"
  "body_first_error (Some two_errors_body) = Some (JStr ''Invalid email'')"
  "body_message (Some (JObj [])) = None"
  by (simp_all add: errors_listed_def body_all_errors_def body_error_list_def errors_body_def
      message_body_def two_errors_body_def join_item_def body_first_error_def body_message_def
      json_or_empty_def first_error_message_def index_of_key_def dec.simps digit_char_def)

lemma sample_profile_name: "opt_prop (Some sample_profile) ''name'' = Some (JStr ''ann'')"
  by (simp add: sample_profile_def)

lemma sample_page_stores:
  "storage (sample_detail_page typed) = stale_store"
  "storage (sample_card typed) = stale_store"
  "the (getToken stale_store) = ''tok-ann''"
  by (simp_all add: sample_detail_page_def sample_card_def stale_store_def getToken_def
      TOKEN_KEY_def PROFILE_KEY_def)

lemma profile_only_responses:
  "map (fetch profile_only_platform) (profile_requests profile_only_platform ''tok-ann'' ''ann'') =
     [Response 200 (Some (JObj [(''data'', sample_profile)])),
      Response 404 None, Response 404 None, Response 404 None]"
  by (simp add: profile_only_platform_def profile_requests_def profile_get_def
      sample_platform_def)

lemma ok_200: "is_ok 200"
  by (simp add: is_ok_def)

theorem gateway_error_message_witness:
  "\<not> is_ok 400 \<and> \<not> is_ok 502 \<and> \<not> is_ok 500 \<and>
   truthy (str_val (getToken stale_store)) \<and>
   getProfile (answering sample_platform 400 (Some errors_body)) stale_store = Inr sample_profile \<and>
   truthy (Some sample_profile) \<and>
   truthy (body_first_error (Some errors_body)) \<and>
   snd (updateListing (answering sample_platform 400 (Some errors_body)) ''tok-ann'' ''L1'' (JObj [])) =
     Inl (Error ''Title is required'') \<and>
   snd (detail_placeBid (answering sample_platform 400 (Some errors_body)) stale_store
          (Some (JStr ''L1'')) 150) = Inl (Error ''Title is required'') \<and>
   snd (dashboard_placeBid (answering sample_platform 400 (Some errors_body)) stale_store
          (Some (JStr ''L1'')) 150) = Inl (Error ''Title is required'') \<and>
   snd (handleCreateListing_try (answering sample_platform 400 (Some errors_body)) ''tok-ann''
          (JObj [])) = Inl (Error ''Title is required'') \<and>
   snd (updateProfileOnServer (answering sample_platform 400 (Some errors_body)) ''tok-ann'' ''ann''
          (JObj [])) = Inl (Error ''Title is required'') \<and>
   snd (loadDashboardListings_try (answering sample_platform 400 (Some errors_body))) =
     Inl (Error ''API error: 400'') \<and>
   snd (loadHomeListings_try (answering sample_platform 400 (Some errors_body))) =
     Inl (Error ''API error: 400'') \<and>
   detail_refreshProfileCredits (answering sample_platform 400 (Some errors_body))
       (sample_detail_page ''150'') =
     emit (Fetch (profile_request (answering sample_platform 400 (Some errors_body)) ''tok-ann''
                    (Some (JStr ''ann''))))
       (sample_detail_page ''150'') \<and>
   dashboard_refreshProfileCredits (answering sample_platform 400 (Some errors_body))
       (sample_card ''150'') =
     emit (Fetch (profile_request (answering sample_platform 400 (Some errors_body)) ''tok-ann''
                    (Some (JStr ''ann''))))
       (sample_card ''150'') \<and>
   \<not> truthy (body_first_error (Some message_body)) \<and>
   truthy (body_message (Some message_body)) \<and>
   Some message_body \<noteq> Some JNull \<and>
   snd (detail_fetchListing (answering sample_platform 400 (Some message_body)) stale_store
          (Some (JStr ''L1''))) = Inl (Error ''Bad Request'') \<and>
   snd (handleCreateListing_try (answering sample_platform 400 (Some message_body)) ''tok-ann''
          (JObj [])) = Inl (Error ''Bad Request'') \<and>
   snd (dashboard_fetchListingById (answering sample_platform 400 (Some message_body)) stale_store
          (Some (JStr ''L1''))) = Inl (Error ''API error: 400'') \<and>
   snd (deleteListing (answering sample_platform 400 (Some message_body)) ''tok-ann'' ''L1'') =
     Inl (Error ''Failed to delete listing (400)'') \<and>
   snd (updateProfileOnServer (answering sample_platform 400 (Some message_body)) ''tok-ann'' ''ann''
          (JObj [])) = Inl (Error ''Failed to update profile (400)'') \<and>
   errors_listed (Some message_body) \<and>
   body_all_errors (answering sample_platform 400 (Some message_body)) (Some message_body) = [] \<and>
   snd (loginUser_try (answering sample_platform 400 (Some message_body)) (JObj []) Map.empty) =
     Inl (Error ''Bad Request'') \<and>
   \<not> truthy (body_first_error None) \<and> \<not> truthy (body_message None) \<and>
   snd (detail_placeBid (answering sample_platform 502 None) stale_store (Some (JStr ''L1'')) 150) =
     Inl (Error ''Failed to place bid (502)'') \<and>
   snd (handleCreateListing_try (answering sample_platform 502 None) ''tok-ann'' (JObj [])) =
     Inl (Error ''Failed to create listing (502)'') \<and>
   errors_listed (Some two_errors_body) \<and>
   snd (registerUser_try (answering sample_platform 400 (Some two_errors_body)) (JObj [])) =
     Inl (Error ''Invalid email, Password too short'') \<and>
   errors_listed (Some (JObj [])) \<and>
   \<not> truthy (body_message (Some (JObj []))) \<and>
   snd (loginUser_try (answering sample_platform 500 (Some (JObj []))) (JObj []) Map.empty) =
     Inl (Error ''Something went wrong.'') \<and>
   map (fetch profile_only_platform) (profile_requests profile_only_platform ''tok-ann'' ''ann'') =
     [Response 200 (Some (JObj [(''data'', sample_profile)])),
      Response 404 None, Response 404 None, Response 404 None] \<and>
   is_ok 200 \<and> \<not> is_ok 404 \<and>
   snd (fetchProfileWithListings profile_only_platform ''tok-ann'' ''ann'') =
     Inl (Error ''Failed to load listings: 404'')"
proof -
  have answered: "(\<forall>req. fetch (answering sample_platform status body) req = Response status body) \<and>
      \<not> is_ok status"
    if "\<not> is_ok status" for status body
    using that answering_fetch [of sample_platform status body] by blast
  note first =
    gateway_error_message [where p = "answering sample_platform 400 (Some errors_body)"
      and status = 400 and body = "Some errors_body" and st = stale_store
      and profile = sample_profile and lid = "Some (JStr ''L1'')" and amount = 150
      and token = "''tok-ann''" and eid = "''L1''" and payload = "JObj []" and name = "''ann''"
      and credentials = "JObj []" and userDetails = "JObj []"
      and dp = "sample_detail_page ''150''" and cp = "sample_card ''150''",
      THEN conjunct1, THEN mp, OF answered [OF sample_statuses(1)]]
  note second =
    gateway_error_message [where p = "answering sample_platform 400 (Some message_body)"
      and status = 400 and body = "Some message_body" and st = stale_store
      and profile = sample_profile and lid = "Some (JStr ''L1'')" and amount = 150
      and token = "''tok-ann''" and eid = "''L1''" and payload = "JObj []" and name = "''ann''"
      and credentials = "JObj []" and userDetails = "JObj []"
      and dp = "sample_detail_page ''150''" and cp = "sample_card ''150''",
      THEN conjunct1, THEN mp, OF answered [OF sample_statuses(1)]]
  note second_login =
    gateway_error_message [where p = "answering sample_platform 400 (Some message_body)"
      and status = 400 and body = "Some message_body" and st = Map.empty
      and profile = sample_profile and lid = "Some (JStr ''L1'')" and amount = 150
      and token = "''tok-ann''" and eid = "''L1''" and payload = "JObj []" and name = "''ann''"
      and credentials = "JObj []" and userDetails = "JObj []"
      and dp = "sample_detail_page ''150''" and cp = "sample_card ''150''",
      THEN conjunct1, THEN mp, OF answered [OF sample_statuses(1)]]
  note third =
    gateway_error_message [where p = "answering sample_platform 502 None"
      and status = 502 and body = "None" and st = stale_store
      and profile = sample_profile and lid = "Some (JStr ''L1'')" and amount = 150
      and token = "''tok-ann''" and eid = "''L1''" and payload = "JObj []" and name = "''ann''"
      and credentials = "JObj []" and userDetails = "JObj []"
      and dp = "sample_detail_page ''150''" and cp = "sample_card ''150''",
      THEN conjunct1, THEN mp, OF answered [OF sample_statuses(2)]]
  note fourth =
    gateway_error_message [where p = "answering sample_platform 400 (Some two_errors_body)"
      and status = 400 and body = "Some two_errors_body" and st = stale_store
      and profile = sample_profile and lid = "Some (JStr ''L1'')" and amount = 150
      and token = "''tok-ann''" and eid = "''L1''" and payload = "JObj []" and name = "''ann''"
      and credentials = "JObj []" and userDetails = "JObj []"
      and dp = "sample_detail_page ''150''" and cp = "sample_card ''150''",
      THEN conjunct1, THEN mp, OF answered [OF sample_statuses(1)]]
  note fifth =
    gateway_error_message [where p = "answering sample_platform 500 (Some (JObj []))"
      and status = 500 and body = "Some (JObj [])" and st = Map.empty
      and profile = sample_profile and lid = "Some (JStr ''L1'')" and amount = 150
      and token = "''tok-ann''" and eid = "''L1''" and payload = "JObj []" and name = "''ann''"
      and credentials = "JObj []" and userDetails = "JObj []"
      and dp = "sample_detail_page ''150''" and cp = "sample_card ''150''",
      THEN conjunct1, THEN mp, OF answered [OF sample_statuses(7)]]
  note sixth =
    gateway_error_message [where p = profile_only_platform and token = "''tok-ann''"
      and name = "''ann''", THEN conjunct2, THEN mp, OF profile_only_responses]
  have a: "truthy (body_first_error (Some errors_body))"
    and b: "\<not> truthy (body_first_error (Some message_body))"
    and c: "truthy (body_message (Some message_body))"
    and d: "\<not> truthy (body_first_error None)" "\<not> truthy (body_message None)"
    and f: "\<not> truthy (body_message (Some (JObj [])))"
    by (simp_all add: sample_bodies sample_error_lists)
  have e: "Some message_body \<noteq> Some JNull" "Some message_body \<noteq> None"
    by (simp_all add: message_body_def)
  have w1: "snd (updateListing (answering sample_platform 400 (Some errors_body)) ''tok-ann'' ''L1'' (JObj [])) =
        Inl (Error ''Title is required'') \<and>
      snd (detail_placeBid (answering sample_platform 400 (Some errors_body)) stale_store
            (Some (JStr ''L1'')) 150) = Inl (Error ''Title is required'') \<and>
      snd (dashboard_placeBid (answering sample_platform 400 (Some errors_body)) stale_store
            (Some (JStr ''L1'')) 150) = Inl (Error ''Title is required'') \<and>
      snd (handleCreateListing_try (answering sample_platform 400 (Some errors_body)) ''tok-ann''
            (JObj [])) = Inl (Error ''Title is required'') \<and>
      snd (updateProfileOnServer (answering sample_platform 400 (Some errors_body)) ''tok-ann'' ''ann''
            (JObj [])) = Inl (Error ''Title is required'') \<and>
      snd (loadDashboardListings_try (answering sample_platform 400 (Some errors_body))) =
        Inl (Error ''API error: 400'') \<and>
      snd (loadHomeListings_try (answering sample_platform 400 (Some errors_body))) =
        Inl (Error ''API error: 400'')"
    using first a sample_session by (simp add: sample_bodies sample_statuses)
  have w2: "detail_refreshProfileCredits (answering sample_platform 400 (Some errors_body))
          (sample_detail_page ''150'') =
        emit (Fetch (profile_request (answering sample_platform 400 (Some errors_body)) ''tok-ann''
                       (Some (JStr ''ann''))))
          (sample_detail_page ''150'') \<and>
      dashboard_refreshProfileCredits (answering sample_platform 400 (Some errors_body))
          (sample_card ''150'') =
        emit (Fetch (profile_request (answering sample_platform 400 (Some errors_body)) ''tok-ann''
                       (Some (JStr ''ann''))))
          (sample_card ''150'')"
    using first sample_session by (simp add: sample_page_stores sample_profile_name)
  have w3: "snd (detail_fetchListing (answering sample_platform 400 (Some message_body)) stale_store
            (Some (JStr ''L1''))) = Inl (Error ''Bad Request'') \<and>
      snd (handleCreateListing_try (answering sample_platform 400 (Some message_body)) ''tok-ann''
            (JObj [])) = Inl (Error ''Bad Request'') \<and>
      snd (dashboard_fetchListingById (answering sample_platform 400 (Some message_body)) stale_store
            (Some (JStr ''L1''))) = Inl (Error ''API error: 400'') \<and>
      snd (deleteListing (answering sample_platform 400 (Some message_body)) ''tok-ann'' ''L1'') =
        Inl (Error ''Failed to delete listing (400)'') \<and>
      snd (updateProfileOnServer (answering sample_platform 400 (Some message_body)) ''tok-ann'' ''ann''
            (JObj [])) = Inl (Error ''Failed to update profile (400)'')"
    using second b c e sample_session by (simp add: sample_bodies sample_statuses)
  have w4: "snd (detail_placeBid (answering sample_platform 502 None) stale_store (Some (JStr ''L1'')) 150) =
        Inl (Error ''Failed to place bid (502)'') \<and>
      snd (handleCreateListing_try (answering sample_platform 502 None) ''tok-ann'' (JObj [])) =
        Inl (Error ''Failed to create listing (502)'')"
    using third d sample_session by (simp add: sample_bodies sample_statuses)
  have w5: "snd (registerUser_try (answering sample_platform 400 (Some two_errors_body)) (JObj [])) =
        Inl (Error ''Invalid email, Password too short'')"
    using fourth by (simp add: sample_error_lists)
  have w7: "snd (loginUser_try (answering sample_platform 400 (Some message_body)) (JObj []) Map.empty) =
        Inl (Error ''Bad Request'') \<and>
      snd (loginUser_try (answering sample_platform 500 (Some (JObj []))) (JObj []) Map.empty) =
        Inl (Error ''Something went wrong.'')"
    using second_login fifth c f by (simp add: sample_error_lists sample_bodies)
  have w6: "snd (fetchProfileWithListings profile_only_platform ''tok-ann'' ''ann'') =
        Inl (Error ''Failed to load listings: 404'')"
    using sixth ok_200 sample_statuses(8) by (simp add: sample_statuses)
  show ?thesis
    using a b c d e(1) f w1 w2 w3 w4 w5 w6 w7 profile_only_responses ok_200
      sample_statuses(1,2,7,8) sample_session
    by (simp add: sample_error_lists)
qed

text \<open>
  The claim as it was written fails in each of its three steps. Where the body has
  structured errors, the listing grids do not read them, and the login page raises all
  of them joined, not the first. Where the body has a message and no structured errors,
  the edit page and the dashboard pass the message over. And the fallback text is
  \<open>API error: status\<close> only on the dashboard and the listing grids. Moreover a body
  that is the JSON \<open>null\<close> makes the functions of the dashboard throw a type error, and a
  body that is no JSON makes \<open>updateProfileOnServer\<close> throw a syntax error.
\<close>

theorem gateway_error_message_counterexample:
  "body_first_error (Some errors_body) = Some (JStr ''Title is required'') \<and>
   snd (loadDashboardListings_try (answering sample_platform 400 (Some errors_body))) =
     Inl (Error ''API error: 400'') \<and>
   body_first_error (Some two_errors_body) = Some (JStr ''Invalid email'') \<and>
   snd (loginUser_try (answering sample_platform 400 (Some two_errors_body)) (JObj []) Map.empty) =
     Inl (Error ''Invalid email, Password too short'') \<and>
   \<not> truthy (body_first_error (Some message_body)) \<and>
   body_message (Some message_body) = Some (JStr ''Bad Request'') \<and>
   snd (updateListing (answering sample_platform 500 (Some message_body)) ''tok-ann'' ''L1'' (JObj [])) =
     Inl (Error ''Failed to update listing (500)'') \<and>
   snd (dashboard_placeBid (answering sample_platform 500 (Some message_body)) stale_store
          (Some (JStr ''L1'')) 150) = Inl (Error ''API error: 500'') \<and>
   snd (detail_fetchListing (answering sample_platform 404 None) stale_store (Some (JStr ''L1''))) =
     Inl (Error ''Failed to load listing (404)'') \<and>
   snd (fetchProfileWithListings profile_only_platform ''tok-ann'' ''ann'') =
     Inl (Error ''Failed to load listings: 404'') \<and>
   snd (dashboard_placeBid (answering sample_platform 500 (Some JNull)) stale_store
          (Some (JStr ''L1'')) 150) = Inl TypeError \<and>
   snd (updateProfileOnServer (answering sample_platform 502 None) ''tok-ann'' ''ann'' (JObj [])) =
     Inl SyntaxError"
proof -
  have ne: "Some message_body \<noteq> Some JNull" by (simp add: message_body_def)
  have null: "dashboard_error_message p status (Some JNull) = TypeError" for p status
    by (simp add: dashboard_error_message_def json_or_empty_def)
  have grid: "snd (loadDashboardListings_try (answering sample_platform 400 (Some errors_body))) =
      Inl (Error ''API error: 400'')"
    by (simp add: loadDashboardListings_try_failure [OF answering_fetch sample_statuses(1)]
        sample_statuses)
  have login: "snd (loginUser_try (answering sample_platform 400 (Some two_errors_body)) (JObj [])
        Map.empty) = Inl (Error ''Invalid email, Password too short'')"
    by (simp add: loginUser_try_failure [OF answering_fetch sample_statuses(1)]
        errorMessage_cases sample_error_lists)
  have listings: "snd (fetchProfileWithListings profile_only_platform ''tok-ann'' ''ann'') =
      Inl (Error ''Failed to load listings: 404'')"
    using fetchProfileWithListings_failure(2) [OF profile_only_responses ok_200 sample_statuses(8)]
    by (simp add: sample_statuses)
  have unread: "snd (updateProfileOnServer (answering sample_platform 502 None) ''tok-ann'' ''ann''
        (JObj [])) = Inl SyntaxError"
    by (simp add: updateProfileOnServer_def answering_def Let_def)
  have rest: "snd (updateListing (answering sample_platform 500 (Some message_body)) ''tok-ann'' ''L1'' (JObj [])) =
        Inl (Error ''Failed to update listing (500)'') \<and>
      snd (dashboard_placeBid (answering sample_platform 500 (Some message_body)) stale_store
            (Some (JStr ''L1'')) 150) = Inl (Error ''API error: 500'') \<and>
      snd (detail_fetchListing (answering sample_platform 404 None) stale_store (Some (JStr ''L1''))) =
        Inl (Error ''Failed to load listing (404)'') \<and>
      snd (dashboard_placeBid (answering sample_platform 500 (Some JNull)) stale_store
            (Some (JStr ''L1'')) 150) = Inl TypeError"
    using sample_session(1)
    by (simp add: updateListing_failure [OF answering_fetch sample_statuses(7)]
        dashboard_placeBid_failure [OF answering_fetch sample_statuses(7)]
        detail_fetchListing_failure [OF answering_fetch sample_statuses(8)]
        edit_error_message_cases detail_error_message_cases
        dashboard_error_message_cases [OF ne] null sample_bodies sample_statuses)
  show ?thesis
    using grid login listings unread rest
    by (simp add: sample_bodies sample_error_lists)
qed

subsection \<open>Search\<close>

lemma js_includes_sublist: "js_includes s q \<longleftrightarrow> sublist q s"
proof (induction s)
  case Nil
  then show ?case by simp
next
  case (Cons c cs)
  show ?case
  proof (cases "prefix q (c # cs)")
    case True
    then show ?thesis by (auto simp: sublist_def prefix_def intro: exI [of _ "[]"])
  next
    case False
    then have "q \<noteq> []" by auto
    with False Cons show ?thesis by (simp add: sublist_Cons_right)
  qed
qed

lemma lower_text_readable:
  "text_field l k = Some s \<Longrightarrow> lower_text p (own_prop l k) = Inr (toLowerCase p s)"
  by (auto simp: text_field_def lower_text_def split: option.splits json.splits)

lemma listing_matches_readable:
  assumes "readable_listing l"
  shows "listing_matches p q l = Inr (matches_query p q l)"
proof -
  from assms obtain t d where td: "text_field l ''title'' = Some t" "text_field l ''description'' = Some d"
    and nn: "l \<noteq> JNull"
    by (auto simp: readable_listing_def)
  from nn have "get_prop (Some l) ''title'' = Inr (own_prop l ''title'')"
    by (cases l) simp_all
  with td show ?thesis
    by (simp add: listing_matches_def matches_query_def lower_text_readable)
qed

lemma filter_listings_readable:
  "\<forall>l \<in> set ls. readable_listing l \<Longrightarrow>
   filter_listings p q ls = Inr (filter (matches_query p q) ls)"
  by (induction ls) (simp_all add: listing_matches_readable)

text \<open>
  Claim C8, as the code has it. With the loaded listings \<open>A\<close>, all of them readable,
  and the query taken as the text of the search box trimmed and lower-cased: an empty
  query renders exactly \<open>A\<close>; any other query renders exactly the listings of \<open>A\<close>,
  in their order, whose lower-cased title or description contains the query as a
  contiguous substring.
\<close>

theorem handleSearchSubmit_renders:
  assumes "dom st ''#home-search-query'' = Some input"
    and "window_allListings st = Some (JArr A)"
    and "has_renderListings st"
    and "\<forall>l \<in> set A. readable_listing l"
  shows "rendered (handleSearchSubmit p st) =
           Some (if search_query p input = [] then A
                 else filter (matches_query p (search_query p input)) A) \<and>
         (\<forall>l. matches_query p (search_query p input) l \<longleftrightarrow>
            sublist (search_query p input) (toLowerCase p (the (text_field l ''title''))) \<or>
            sublist (search_query p input) (toLowerCase p (the (text_field l ''description'')))) \<and>
         subseq (the (rendered (handleSearchSubmit p st))) A"
proof -
  have r: "rendered (handleSearchSubmit p st) =
           Some (if search_query p input = [] then A
                 else filter (matches_query p (search_query p input)) A)"
    using assms
    by (simp add: handleSearchSubmit_def search_query_def js_or_def Let_def
        filter_listings_readable)
  then have "subseq (the (rendered (handleSearchSubmit p st))) A"
    by simp
  with r show ?thesis
    by (simp add: matches_query_def js_includes_sublist)
qed

lemma sample_listings_readable: "readable_listing sample_listing" "readable_listing lamp_listing"
  by (simp_all add: readable_listing_def text_field_def sample_listing_def lamp_listing_def
      js_or_def)

lemma sample_search_page_fields:
  "dom (sample_search_page typed) ''#home-search-query'' =
     Some (blank_element\<lparr>elem_value := typed\<rparr>)"
  "window_allListings (sample_search_page typed) = Some (JArr [sample_listing, lamp_listing])"
  "has_renderListings (sample_search_page typed)"
  by (simp_all add: sample_search_page_def)

lemma sample_queries:
  "search_query sample_platform (blank_element\<lparr>elem_value := ''  VaSe ''\<rparr>) = ''vase''"
  "search_query sample_platform (blank_element\<lparr>elem_value := ''''\<rparr>) = ''''"
  "search_query sample_platform (blank_element\<lparr>elem_value := ''vase ''\<rparr>) = ''vase''"
  by (simp_all add: search_query_def sample_platform_def sample_trim_def ascii_lower_def
      blank_element_def)

lemma sample_matches:
  "matches_query sample_platform ''vase'' sample_listing"
  "\<not> matches_query sample_platform ''vase'' lamp_listing"
  by (simp_all add: matches_query_def text_field_def sample_listing_def lamp_listing_def
      js_or_def sample_platform_def ascii_lower_def)

theorem handleSearchSubmit_renders_witness:
  "dom (sample_search_page ''  VaSe '') ''#home-search-query'' =
     Some (blank_element\<lparr>elem_value := ''  VaSe ''\<rparr>) \<and>
   window_allListings (sample_search_page ''  VaSe '') = Some (JArr [sample_listing, lamp_listing]) \<and>
   has_renderListings (sample_search_page ''  VaSe '') \<and>
   readable_listing sample_listing \<and> readable_listing lamp_listing \<and>
   search_query sample_platform (blank_element\<lparr>elem_value := ''  VaSe ''\<rparr>) = ''vase'' \<and>
   rendered (handleSearchSubmit sample_platform (sample_search_page ''  VaSe '')) =
     Some [sample_listing] \<and>
   rendered (handleSearchSubmit sample_platform (sample_search_page '''')) =
     Some [sample_listing, lamp_listing]"
proof -
  have readable: "\<forall>l \<in> set [sample_listing, lamp_listing]. readable_listing l"
    by (simp add: sample_listings_readable)
  note typed =
    handleSearchSubmit_renders [OF sample_search_page_fields readable,
      where typed1 = "''  VaSe ''" and p = sample_platform]
  note empty =
    handleSearchSubmit_renders [OF sample_search_page_fields readable,
      where typed1 = "''''" and p = sample_platform]
  from typed have a: "rendered (handleSearchSubmit sample_platform (sample_search_page ''  VaSe '')) =
      Some [sample_listing]"
    by (simp add: sample_queries sample_matches)
  from empty have b: "rendered (handleSearchSubmit sample_platform (sample_search_page '''')) =
      Some [sample_listing, lamp_listing]"
    by (simp add: sample_queries)
  from a b show ?thesis
    by (simp add: sample_search_page_fields sample_listings_readable sample_queries)
qed

text \<open>
  The claim as it was written fails on a query with a blank at its end: \<open>vase \<close> is
  not empty and occurs in no title or description, in whatever case, yet the listing
  titled \<open>Blue Vase\<close> is rendered, because the query is trimmed first. And on a
  listing whose title is a number the filter throws, and nothing is rendered.
\<close>

theorem handleSearchSubmit_counterexample:
  "rendered (handleSearchSubmit sample_platform (sample_search_page ''vase '')) =
     Some [sample_listing] \<and>
   \<not> js_includes (toLowerCase sample_platform ''Blue Vase'') (toLowerCase sample_platform ''vase '') \<and>
   \<not> js_includes (toLowerCase sample_platform ''Ceramic, hand painted'')
       (toLowerCase sample_platform ''vase '') \<and>
   rendered (handleSearchSubmit sample_platform numeric_title_page) = None \<and>
   trace (handleSearchSubmit sample_platform numeric_title_page) = [Uncaught TypeError]"
proof -
  have "rendered (handleSearchSubmit sample_platform (sample_search_page ''vase '')) =
     Some [sample_listing]"
    using sample_queries(3)
    by (simp add: handleSearchSubmit_def sample_search_page_def js_or_def Let_def
        search_query_def listing_matches_readable sample_listings_readable sample_matches)
  moreover have "\<not> js_includes (toLowerCase sample_platform ''Blue Vase'')
      (toLowerCase sample_platform ''vase '')"
    by (simp add: sample_platform_def ascii_lower_def)
  moreover have "\<not> js_includes (toLowerCase sample_platform ''Ceramic, hand painted'')
      (toLowerCase sample_platform ''vase '')"
    by (simp add: sample_platform_def ascii_lower_def)
  moreover have "handleSearchSubmit sample_platform numeric_title_page =
      emit (Uncaught TypeError) numeric_title_page"
    by (simp add: handleSearchSubmit_def numeric_title_page_def js_or_def Let_def
        listing_matches_def lower_text_def sample_platform_def sample_trim_def ascii_lower_def
        blank_element_def)
  ultimately show ?thesis
    by (simp add: emit_def numeric_title_page_def)
qed

subsection \<open>Edit page: a listing of another seller\<close>

lemma edit_fetchListing_requests: "fst (edit_fetchListing p token lid) = [edit_fetch_request token lid]"
  by (simp add: edit_fetchListing_def edit_fetch_request_def Let_def)

lemma populateForm_foreign:
  assumes "l \<noteq> JNull"
    and "\<not> strict_eq (opt_prop (own_prop l ''seller'') ''name'') name"
  shows "populateForm p (Some l) name st =
     (emit (Navigate ''profile.html'') (emit (Alert ''You can only edit your own listings.'') st), None)"
  using assms by (simp add: populateForm_def get_prop_non_null Let_def)



lemma sample_edit_session:
  "getToken (storage sample_edit_page) = Some ''tok-ann''"
  "getProfile serving_sample_listing (storage sample_edit_page) = Inr sample_profile"
  "url_id sample_edit_page = Some ''L1''"
  using sample_session(2) [of 200 "Some (JObj [(''data'', sample_listing)])"]
  by (simp_all add: sample_edit_page_def stale_store_def getToken_def TOKEN_KEY_def
      PROFILE_KEY_def serving_sample_listing_def)

lemma sample_edit_fetch:
  "snd (edit_fetchListing serving_sample_listing ''tok-ann'' ''L1'') = Inr (Some sample_listing)"
  by (simp add: edit_fetchListing_def serving_sample_listing_def answering_def Let_def is_ok_def
      json_or_empty_def)

lemma sample_listing_foreign:
  "sample_listing \<noteq> JNull"
  "\<not> strict_eq (opt_prop (own_prop sample_listing ''seller'') ''name'')
     (own_prop sample_profile ''name'')"
  by (simp_all add: sample_listing_def sample_profile_def strict_eq_def)



text \<open>
  In the same load the submit and delete listeners are registered all the same, after
  \<open>populateForm\<close> has returned from its redirect.
\<close>

lemma edit_load_foreign_listeners:
  "submit_listener (edit_load serving_sample_listing sample_edit_page) \<and>
   delete_listener (edit_load serving_sample_listing sample_edit_page)"
proof -
  have "populateForm serving_sample_listing (Some sample_listing) (own_prop sample_profile ''name'') st =
      (emit (Navigate ''profile.html'') (emit (Alert ''You can only edit your own listings.'') st), None)"
    for st
    by (rule populateForm_foreign [OF sample_listing_foreign])
  then have "edit_load_try serving_sample_listing ''tok-ann'' sample_profile ''L1'' sample_edit_page =
      (emit (Navigate ''profile.html'')
         (emit (Alert ''You can only edit your own listings.'')
            (emit_requests [edit_fetch_request ''tok-ann'' ''L1''] sample_edit_page))
       \<lparr>submit_listener := True, delete_listener := True\<rparr>, None)"
    using sample_edit_fetch
    by (simp add: edit_load_try_def Let_def edit_fetchListing_requests emit_def emit_requests_def
        sample_edit_page_def)
  then show ?thesis
    using sample_edit_session sample_session(3)
    by (simp add: edit_load_def str_val_def emit_def)
qed

subsection \<open>Bids turned away before the network\<close>

lemma requests_of_append: "requests_of (xs @ ys) = requests_of xs @ requests_of ys"
  by (induction xs rule: requests_of.induct) simp_all

lemma handleBidSubmit_invalid:
  assumes "dom st ''#bidAmountInput'' = Some input"
    and "invalid_bid p (elem_value input) (currentListing st)"
  shows "\<exists>es. handleBidSubmit p st = st\<lparr>trace := trace st @ es\<rparr> \<and> requests_of es = []"
proof -
  have unchanged: "\<exists>es. st = st\<lparr>trace := trace st @ es\<rparr> \<and> requests_of es = []"
    by (rule exI [of _ "[]"]) simp
  have one: "\<exists>es. emit e st = st\<lparr>trace := trace st @ es\<rparr> \<and> requests_of es = []"
    if "\<forall>r. e \<noteq> Fetch r" for e
    using that by (intro exI [of _ "[e]"]) (cases e; simp add: emit_def)
  have two: "\<exists>es. emit (Navigate u) (emit (Alert m) st) = st\<lparr>trace := trace st @ es\<rparr> \<and>
      requests_of es = []" for u m
    by (intro exI [of _ "[Alert m, Navigate u]"]) (simp add: emit_def)
  show ?thesis
    using assms unchanged one two
    by (auto simp: handleBidSubmit_def invalid_bid_def Let_def
        split: sum.splits jsnumber.splits)
qed

lemma bid_click_invalid:
  assumes "invalid_bid p (elem_value (bidInput c)) (Some (card_listing c))"
  shows "\<exists>es. bid_click p c = c\<lparr>trace := trace c @ es\<rparr> \<and> requests_of es = []"
proof -
  have one: "\<exists>es. emit e c = c\<lparr>trace := trace c @ es\<rparr> \<and> requests_of es = []"
    if "\<forall>r. e \<noteq> Fetch r" for e
    using that by (intro exI [of _ "[e]"]) (cases e; simp add: emit_def)
  show ?thesis
    using assms one
    by (auto simp: bid_click_def invalid_bid_def Let_def split: sum.splits jsnumber.splits)
qed

text \<open>
  Claim C1. When the amount entered is missing, not a number, not positive, or not above
  the highest bid the page knows for the listing, the bid handler of the detail page and
  the click handler of a dashboard card send no request: all they do is add effects other
  than requests to the trace (an alert, and for a guest the redirect to the login page), so
  that the listing, the store and every element, the highest-bid display among them, stay
  as they were.
\<close>

theorem invalid_bid_rejected:
  "(dom st ''#bidAmountInput'' = Some input \<and>
    invalid_bid p (elem_value input) (currentListing st) \<longrightarrow>
      (\<exists>es. handleBidSubmit p st = st\<lparr>trace := trace st @ es\<rparr> \<and> requests_of es = []) \<and>
      requests_of (trace (handleBidSubmit p st)) = requests_of (trace st) \<and>
      dom (handleBidSubmit p st) ''#listingHighestBid'' = dom st ''#listingHighestBid'') \<and>
   (invalid_bid p (elem_value (bidInput c)) (Some (card_listing c)) \<longrightarrow>
      (\<exists>es. bid_click p c = c\<lparr>trace := trace c @ es\<rparr> \<and> requests_of es = []) \<and>
      requests_of (trace (bid_click p c)) = requests_of (trace c) \<and>
      highestBidEl (bid_click p c) = highestBidEl c)"
proof -
  have detail: "requests_of (trace (handleBidSubmit p st)) = requests_of (trace st) \<and>
      dom (handleBidSubmit p st) ''#listingHighestBid'' = dom st ''#listingHighestBid''"
    if "\<exists>es. handleBidSubmit p st = st\<lparr>trace := trace st @ es\<rparr> \<and> requests_of es = []"
  proof -
    from that obtain es where "handleBidSubmit p st = st\<lparr>trace := trace st @ es\<rparr>"
      and "requests_of es = []" by blast
    then show ?thesis by (simp add: requests_of_append)
  qed
  have card: "requests_of (trace (bid_click p c)) = requests_of (trace c) \<and>
      highestBidEl (bid_click p c) = highestBidEl c"
    if "\<exists>es. bid_click p c = c\<lparr>trace := trace c @ es\<rparr> \<and> requests_of es = []"
  proof -
    from that obtain es where "bid_click p c = c\<lparr>trace := trace c @ es\<rparr>"
      and "requests_of es = []" by blast
    then show ?thesis by (simp add: requests_of_append)
  qed
  show ?thesis
    using handleBidSubmit_invalid [of st input p] bid_click_invalid [of p c] detail card
    by blast
qed

lemma sample_highest: "getHighestBidAmount (Some sample_listing) = Inr 100"
  by (simp add: getHighestBidAmount_def sample_listing_def bid_step_def)

lemma sample_fifty: "invalid_bid sample_platform ''50'' (Some sample_listing)"
  by (simp add: invalid_bid_def sample_highest sample_platform_def sample_Number_def)

lemma sample_detail_page_fields:
  "dom (sample_detail_page typed) ''#bidAmountInput'' = Some (blank_element\<lparr>elem_value := typed\<rparr>)"
  "dom (sample_detail_page typed) ''#placeBidButton'' =
     Some (blank_element\<lparr>textContent := ''Place Bid''\<rparr>)"
  "dom (sample_detail_page typed) ''#listingHighestBid'' =
     Some (blank_element\<lparr>textContent := ''100 credits''\<rparr>)"
  "currentListing (sample_detail_page typed) = Some sample_listing"
  "storage (sample_detail_page typed) = stale_store"
  "trace (sample_detail_page typed) = []"
  by (simp_all add: sample_detail_page_def)

lemma sample_card_fields:
  "elem_value (bidInput (sample_card typed)) = typed"
  "card_listing (sample_card typed) = sample_listing"
  "highestBidEl (sample_card typed) = blank_element\<lparr>textContent := ''100 credits''\<rparr>"
  "trace (sample_card typed) = []"
  "storage (sample_card typed) = stale_store"
  "card_id (sample_card typed) = Some (JStr ''L1'')"
  by (simp_all add: sample_card_def blank_element_def)

lemma sample_profile_stored: "getProfile sample_platform stale_store = Inr sample_profile"
  by (simp add: stale_store_def getProfile_def PROFILE_KEY_def TOKEN_KEY_def sample_platform_def
      sample_parse_def sample_profile_text_def)

theorem invalid_bid_rejected_witness:
  "dom (sample_detail_page ''50'') ''#bidAmountInput'' =
     Some (blank_element\<lparr>elem_value := ''50''\<rparr>) \<and>
   invalid_bid sample_platform ''50'' (Some sample_listing) \<and>
   requests_of (trace (handleBidSubmit sample_platform (sample_detail_page ''50''))) = [] \<and>
   dom (handleBidSubmit sample_platform (sample_detail_page ''50'')) ''#listingHighestBid'' =
     Some (blank_element\<lparr>textContent := ''100 credits''\<rparr>) \<and>
   trace (handleBidSubmit sample_platform (sample_detail_page ''50'')) =
     [Alert ''Your bid must be higher than the current highest bid (100 credits).''] \<and>
   requests_of (trace (bid_click sample_platform (sample_card ''50''))) = [] \<and>
   highestBidEl (bid_click sample_platform (sample_card ''50'')) =
     blank_element\<lparr>textContent := ''100 credits''\<rparr> \<and>
   trace (bid_click sample_platform (sample_card ''50'')) =
     [Alert ''Your bid must be higher than the current highest bid (100 credits).'']"
proof -
  have typed: "elem_value (blank_element\<lparr>elem_value := ''50''\<rparr>) = ''50''" by simp
  note rejected =
    invalid_bid_rejected [of "sample_detail_page ''50''" "blank_element\<lparr>elem_value := ''50''\<rparr>"
      sample_platform "sample_card ''50''"]
  from rejected sample_fifty
  have quiet: "requests_of (trace (handleBidSubmit sample_platform (sample_detail_page ''50''))) = []"
    "dom (handleBidSubmit sample_platform (sample_detail_page ''50'')) ''#listingHighestBid'' =
       Some (blank_element\<lparr>textContent := ''100 credits''\<rparr>)"
    "requests_of (trace (bid_click sample_platform (sample_card ''50''))) = []"
    "highestBidEl (bid_click sample_platform (sample_card ''50'')) =
       blank_element\<lparr>textContent := ''100 credits''\<rparr>"
    by (simp_all add: sample_detail_page_fields sample_card_fields typed)
  have number: "js_Number sample_platform ''50'' = Num 50"
    by (simp add: sample_platform_def sample_Number_def)
  have shown: "ToString sample_platform (JNum 100) = ''100''"
    by (simp add: sample_platform_def sample_ToString_def dec.simps digit_char_def)
  have loaded: "truthy (Some sample_listing)"
    by (simp add: sample_listing_def)
  have logged_in: "truthy (str_val (getToken stale_store))"
    by (rule sample_session(1))
  have detail: "trace (handleBidSubmit sample_platform (sample_detail_page ''50'')) =
      [Alert ''Your bid must be higher than the current highest bid (100 credits).'']"
    using logged_in loaded
    by (simp add: handleBidSubmit_def sample_detail_page_fields sample_profile_stored
        sample_session(3) typed number sample_highest shown emit_def Let_def)
  have card: "trace (bid_click sample_platform (sample_card ''50'')) =
      [Alert ''Your bid must be higher than the current highest bid (100 credits).'']"
    by (simp add: bid_click_def sample_card_fields number sample_highest shown emit_def)
  from quiet detail card show ?thesis
    by (simp add: sample_detail_page_fields sample_fifty)
qed

subsection \<open>The listing a page holds changes only after a confirmed re-fetch\<close>

lemma emit_frame:
  "storage (emit e st) = storage st" "dom (emit e st) = dom st"
  "trace (emit e st) = trace st @ [e]"
  by (simp_all add: emit_def)

lemma emit_requests_frame:
  "storage (emit_requests rs st) = storage st" "dom (emit_requests rs st) = dom st"
  by (simp_all add: emit_requests_def)










lemma card_steps_keep_listing:
  "card_listing (emit e c) = card_listing c"
  "card_listing (emit_requests rs c) = card_listing c"
  "card_listing (update_element sel f c) = card_listing c"
  "card_id (emit_requests rs c) = card_id c"
  by (simp_all add: emit_def emit_requests_def update_element_def split: option.splits)








lemma sample_numbers:
  "js_Number sample_platform ''150'' = Num 150"
  "js_Number refusing_platform ''150'' = Num 150"
  "js_Number accepting_platform ''150'' = Num 150"
  by (simp_all add: refusing_platform_def answering_def accepting_platform_def
      sample_platform_def sample_Number_def)


lemma getProfile_fetch_update: "getProfile (p\<lparr>fetch := f\<rparr>) st = getProfile p st"
  by (simp add: getProfile_def split: option.splits)

lemma accepting_session: "getProfile accepting_platform stale_store = Inr sample_profile"
  using sample_profile_stored by (simp add: accepting_platform_def getProfile_fetch_update)

lemma accepting_fields:
  "fetch accepting_platform req =
     (if req_method req = ''POST'' then Response 201 (Some (JObj [(''data'', JObj [])]))
      else if req_url req = PROFILE_BASE @ ''/ann''
      then Response 200 (Some (JObj [(''data'', sample_profile)]))
      else Response 200 (Some (JObj [(''data'', fresh_listing)])))"
  "encodeURIComponent accepting_platform s = s"
  by (simp_all add: accepting_platform_def sample_platform_def)


lemma accepting_requests:
  "snd (detail_placeBid accepting_platform stale_store (Some (JStr ''L1'')) 150) = Inr (Some (JObj []))"
  "snd (detail_fetchListing accepting_platform stale_store (Some (JStr ''L1''))) =
     Inr (Some fresh_listing)"
  "snd (dashboard_placeBid accepting_platform stale_store (Some (JStr ''L1'')) 150) =
     Inr (Some (JObj []))"
  "snd (dashboard_fetchListingById accepting_platform stale_store (Some (JStr ''L1''))) =
     Inr (Some fresh_listing)"
  using sample_session(1)
  by (simp_all add: detail_placeBid_def detail_fetchListing_def dashboard_placeBid_def
      dashboard_fetchListingById_def accepting_session sample_session(3) Let_def
      accepting_fields is_ok_def json_or_empty_def LISTINGS_BASE_def PROFILE_BASE_def
      API_BASE_def)



subsection \<open>An accepted bid, end to end\<close>

lemma fresh_listing_facts:
  "getHighestBidAmount (Some fresh_listing) = Inr 150"
  "bids_count fresh_listing = Some (JNum 4)"
  "get_prop (Some fresh_listing) ''_count'' = Inr (Some (JObj [(''bids'', JNum 4)]))"
  by (simp_all add: getHighestBidAmount_def fresh_listing_def bid_step_def bids_count_def
      nullish_or_def)

lemma accepting_strings:
  "ToString accepting_platform (JNum 150) = ''150''"
  "ToString accepting_platform (JNum 4) = ''4''"
  by (simp_all add: accepting_platform_def sample_platform_def sample_ToString_def dec.simps
      digit_char_def)

lemma card_elements_kept:
  "highestBidEl (emit e c) = highestBidEl c" "badgeEl (emit e c) = badgeEl c"
  "bidsTextEl (emit e c) = bidsTextEl c" "bidInput (emit e c) = bidInput c"
  "highestBidEl (update_element sel f c) = highestBidEl c"
  "badgeEl (update_element sel f c) = badgeEl c"
  "bidsTextEl (update_element sel f c) = bidsTextEl c"
  "bidInput (update_element sel f c) = bidInput c"
  by (simp_all add: emit_def update_element_def split: option.splits)

lemma dashboard_refreshProfileCredits_keeps_elements:
  "highestBidEl (dashboard_refreshProfileCredits p c) = highestBidEl c"
  "badgeEl (dashboard_refreshProfileCredits p c) = badgeEl c"
  "bidsTextEl (dashboard_refreshProfileCredits p c) = bidsTextEl c"
  "bidInput (dashboard_refreshProfileCredits p c) = bidInput c"
  by (simp_all add: dashboard_refreshProfileCredits_def Let_def card_elements_kept
      updateCreditsDisplay_def split: sum.splits fetch_result.splits option.splits)

lemma card_bid_finally_keeps_elements:
  "highestBidEl (card_bid_finally c) = highestBidEl c"
  "badgeEl (card_bid_finally c) = badgeEl c"
  "bidsTextEl (card_bid_finally c) = bidsTextEl c"
  "bidInput (card_bid_finally c) = bidInput c"
  by (simp_all add: card_bid_finally_def)

text \<open>
  A bid of 150 on the card of a listing whose highest bid is 100, accepted by the service:
  the card then shows the highest bid and the number of bids of the re-fetched listing,
  and the input is cleared.
\<close>

lemma accepted_bid_on_card:
  "textContent (highestBidEl (bid_click accepting_platform (sample_card ''150''))) = ''150 credits'' \<and>
   textContent (badgeEl (bid_click accepting_platform (sample_card ''150''))) = ''4 bids'' \<and>
   textContent (bidsTextEl (bid_click accepting_platform (sample_card ''150''))) = ''4 bids so far'' \<and>
   elem_value (bidInput (bid_click accepting_platform (sample_card ''150''))) = ''''"
proof -
  let ?c = "sample_card ''150''"
  let ?t = "card_bid_try accepting_platform 150 ?c"
  have shown: "snd ?t = None \<and>
      textContent (highestBidEl (fst ?t)) = ''150 credits'' \<and>
      textContent (badgeEl (fst ?t)) = ''4 bids'' \<and>
      textContent (bidsTextEl (fst ?t)) = ''4 bids so far'' \<and>
      elem_value (bidInput (fst ?t)) = ''''"
    using accepting_requests(3,4)
    by (simp add: card_bid_try_def Let_def sample_card_fields emit_requests_frame
        card_steps_keep_listing fresh_listing_facts accepting_strings card_elements_kept
        dashboard_refreshProfileCredits_keeps_elements bids_so_far_def strict_eq_def)
  have "bid_click accepting_platform ?c = card_bid_finally (fst ?t)"
    using shown
    by (cases ?t)
      (simp add: bid_click_def sample_card_fields sample_numbers sample_highest)
  with shown show ?thesis
    by (simp add: card_bid_finally_keeps_elements)
qed

end
